theory Spec2Isabelle
  imports Complex_Main
begin

section \<open>JavaScript values\<close>

text \<open>
  The rule framework of \<^verbatim>\<open>src/extension/content/ruleset/rule.js\<close> handles
  configuration values that are read from a persistent store: \<^verbatim>\<open>undefined\<close>
  (nothing stored), \<^verbatim>\<open>null\<close>, booleans, numbers, strings, arrays and plain
  objects. A number is \<^verbatim>\<open>NaN\<close>, one of the two infinities, or a finite value of
  the binary64 format, which is kept as the real number it denotes. The sign of zero is
  not distinguished (neither \<^verbatim>\<open>===\<close> nor \<^verbatim>\<open>JSON.stringify\<close> sees it).
\<close>

datatype jsnum = NaN | PosInf | NegInf | Fin real

datatype jsval =
    JUndefined
  | JNull
  | JBool bool
  | JNum jsnum
  | JStr string
  | JArr "jsval list"
  | JObj "(string \<times> jsval) list"

text \<open>
  Exceptions. \<^verbatim>\<open>TypeError\<close> and \<^verbatim>\<open>Error\<close> carry the message the source gives
  them; \<open>EngineTypeError\<close> is the \<^verbatim>\<open>TypeError\<close> the engine itself raises when a
  property of \<^verbatim>\<open>null\<close> or \<^verbatim>\<open>undefined\<close> is read or a missing method is called
  (its message depends on the engine).
\<close>

datatype error = TypeError string | Error string | EngineTypeError

fun is_TypeError :: "error \<Rightarrow> bool" where
  "is_TypeError (TypeError m) = True"
| "is_TypeError EngineTypeError = True"
| "is_TypeError (Error m) = False"

text \<open>
  Two conversions are fixed by the JavaScript engine and not by the repository: parsing a
  string as a number (the string case of \<^verbatim>\<open>+value\<close>) and printing a finite number.
  Every definition that needs them takes them as a parameter.
\<close>

record platform =
  string_to_number :: "string \<Rightarrow> jsnum"
  number_to_string :: "real \<Rightarrow> string"

text \<open>Truthiness, as tested by \<^verbatim>\<open>!x\<close>, \<^verbatim>\<open>x && y\<close> and \<^verbatim>\<open>if (x)\<close>.\<close>

fun truthy :: "jsval \<Rightarrow> bool" where
  "truthy JUndefined = False"
| "truthy JNull = False"
| "truthy (JBool b) = b"
| "truthy (JNum n) = (n \<noteq> NaN \<and> n \<noteq> Fin 0)"
| "truthy (JStr s) = (s \<noteq> [])"
| "truthy (JArr xs) = True"
| "truthy (JObj kvs) = True"

text \<open>
  Strict equality \<^verbatim>\<open>===\<close>. \<^verbatim>\<open>NaN\<close> is not equal to itself. Arrays and objects
  are compared by reference; two values of this development never share a reference, so
  they are never strictly equal.
\<close>

fun strict_eq :: "jsval \<Rightarrow> jsval \<Rightarrow> bool" where
  "strict_eq JUndefined JUndefined = True"
| "strict_eq JNull JNull = True"
| "strict_eq (JBool a) (JBool b) = (a = b)"
| "strict_eq (JNum a) (JNum b) = (a \<noteq> NaN \<and> a = b)"
| "strict_eq (JStr a) (JStr b) = (a = b)"
| "strict_eq a b = False"

text \<open>Property read \<^verbatim>\<open>o.k\<close> on a plain object: the value of the key, or \<^verbatim>\<open>undefined\<close>.\<close>

fun get_prop :: "(string \<times> jsval) list \<Rightarrow> string \<Rightarrow> jsval" where
  "get_prop [] k = JUndefined"
| "get_prop ((k', v) # kvs) k = (if k' = k then v else get_prop kvs k)"

subsection \<open>Numbers\<close>

fun isFinite :: "jsnum \<Rightarrow> bool" where
  "isFinite (Fin q) = True"
| "isFinite n = False"

text \<open>The comparison \<^verbatim>\<open>a < b\<close>; any comparison with \<^verbatim>\<open>NaN\<close> is false.\<close>

fun num_lt :: "jsnum \<Rightarrow> jsnum \<Rightarrow> bool" where
  "num_lt NaN b = False"
| "num_lt a NaN = False"
| "num_lt (Fin a) (Fin b) = (a < b)"
| "num_lt NegInf b = (b \<noteq> NegInf)"
| "num_lt a PosInf = (a \<noteq> PosInf)"
| "num_lt a b = False"

definition num_gt :: "jsnum \<Rightarrow> jsnum \<Rightarrow> bool" where
  "num_gt a b = num_lt b a"

text \<open>
  Arithmetic rounds its exact result to the nearest binary64 value, ties to the value
  with an even significand. \<open>exponent x\<close> is, for a positive \<open>x\<close>, the integer \<open>e\<close>
  with \<open>2 ^ e \<le> x < 2 ^ (e + 1)\<close>, kept between the least exponent of a normal
  number, \<open>-1022\<close>, and \<open>1024\<close>, where every value overflows. The values with
  that exponent are the whole multiples of \<open>2 ^ (e - 52)\<close>; a rounded result of
  magnitude \<open>2 ^ 1024\<close> or more is an infinity.
\<close>

definition round_even :: "real \<Rightarrow> int" where
  "round_even y =
     (let n = \<lfloor>y\<rfloor>; f = y - of_int n in
      if f < 1 / 2 then n else if 1 / 2 < f then n + 1 else if even n then n else n + 1)"

primrec halvings :: "nat \<Rightarrow> real \<Rightarrow> nat" where
  "halvings 0 x = 0"
| "halvings (Suc k) x = (if 2 \<le> x then Suc (halvings k (x / 2)) else 0)"

primrec doublings :: "nat \<Rightarrow> real \<Rightarrow> nat" where
  "doublings 0 x = 0"
| "doublings (Suc k) x = (if x < 1 then Suc (doublings k (2 * x)) else 0)"

definition exponent :: "real \<Rightarrow> int" where
  "exponent x = (if 1 \<le> x then int (halvings 1024 x) else - int (doublings 1022 x))"

definition pow2 :: "int \<Rightarrow> real" where
  "pow2 e = (if 0 \<le> e then 2 ^ nat e else 1 / 2 ^ nat (- e))"

definition binary64 :: "real \<Rightarrow> jsnum" where
  "binary64 x =
     (if x = 0 then Fin 0
      else
        let q = pow2 (exponent \<bar>x\<bar> - 52);
            r = of_int (round_even (x / q)) * q
        in if 2 ^ 1024 \<le> \<bar>r\<bar> then (if 0 < x then PosInf else NegInf) else Fin r)"

text \<open>The difference \<^verbatim>\<open>a - b\<close>.\<close>

fun num_sub :: "jsnum \<Rightarrow> jsnum \<Rightarrow> jsnum" where
  "num_sub NaN b = NaN"
| "num_sub a NaN = NaN"
| "num_sub (Fin a) (Fin b) = binary64 (a - b)"
| "num_sub PosInf PosInf = NaN"
| "num_sub NegInf NegInf = NaN"
| "num_sub PosInf b = PosInf"
| "num_sub NegInf b = NegInf"
| "num_sub (Fin a) PosInf = NegInf"
| "num_sub (Fin a) NegInf = PosInf"

text \<open>Rounding towards zero, the quotient of the remainder operator.\<close>

definition trunc :: "real \<Rightarrow> int" where
  "trunc q = (if 0 \<le> q then \<lfloor>q\<rfloor> else \<lceil>q\<rceil>)"

text \<open>
  The remainder \<^verbatim>\<open>a % b\<close>: \<^verbatim>\<open>NaN\<close> when an operand is \<^verbatim>\<open>NaN\<close>, the dividend is
  infinite or the divisor is zero; the dividend itself when only the divisor is infinite;
  otherwise the dividend minus the divisor times the truncated quotient, which is a
  binary64 value when the operands are, so that the rounding changes nothing then.
\<close>

fun num_rem :: "jsnum \<Rightarrow> jsnum \<Rightarrow> jsnum" where
  "num_rem (Fin a) (Fin b) =
     (if b = 0 then NaN else binary64 (a - b * of_int (trunc (a / b))))"
| "num_rem (Fin a) PosInf = Fin a"
| "num_rem (Fin a) NegInf = Fin a"
| "num_rem a b = NaN"

subsection \<open>Conversions\<close>

text \<open>
  \<^verbatim>\<open>String(v)\<close>: an array prints its elements separated by commas, with
  \<^verbatim>\<open>null\<close> and \<^verbatim>\<open>undefined\<close> elements printed as nothing; a plain object prints as
  \<^verbatim>\<open>[object Object]\<close>.
\<close>

fun join :: "string \<Rightarrow> string list \<Rightarrow> string" where
  "join sep [] = []"
| "join sep [s] = s"
| "join sep (s # t # ss) = s @ sep @ join sep (t # ss)"

fun to_string :: "platform \<Rightarrow> jsval \<Rightarrow> string"
  and element_strings :: "platform \<Rightarrow> jsval list \<Rightarrow> string list" where
  "to_string P JUndefined = ''undefined''"
| "to_string P JNull = ''null''"
| "to_string P (JBool b) = (if b then ''true'' else ''false'')"
| "to_string P (JNum NaN) = ''NaN''"
| "to_string P (JNum PosInf) = ''Infinity''"
| "to_string P (JNum NegInf) = ''-Infinity''"
| "to_string P (JNum (Fin q)) = number_to_string P q"
| "to_string P (JStr s) = s"
| "to_string P (JArr xs) = join '','' (element_strings P xs)"
| "to_string P (JObj kvs) = ''[object Object]''"
| "element_strings P [] = []"
| "element_strings P (x # xs) =
     (if x = JUndefined \<or> x = JNull then [] else to_string P x) # element_strings P xs"

text \<open>\<^verbatim>\<open>+v\<close>: arrays and objects are first printed, then parsed like strings.\<close>

fun to_number :: "platform \<Rightarrow> jsval \<Rightarrow> jsnum" where
  "to_number P JUndefined = NaN"
| "to_number P JNull = Fin 0"
| "to_number P (JBool b) = Fin (if b then 1 else 0)"
| "to_number P (JNum n) = n"
| "to_number P (JStr s) = string_to_number P s"
| "to_number P v = string_to_number P (to_string P v)"

text \<open>
  \<^verbatim>\<open>+x === x\<close>, the test the number item applies to its bounds: \<^verbatim>\<open>x\<close> is a number
  other than \<^verbatim>\<open>NaN\<close>.
\<close>

fun is_own_number :: "jsval \<Rightarrow> bool" where
  "is_own_number (JNum n) = (n \<noteq> NaN)"
| "is_own_number v = False"

subsection \<open>\<^verbatim>\<open>JSON.stringify\<close>\<close>

definition hex_digit :: "nat \<Rightarrow> char" where
  "hex_digit n = (''0123456789abcdef'' ! (n mod 16))"

definition json_escape :: "char \<Rightarrow> string" where
  "json_escape c =
     (if c = CHR 0x22 then [CHR 0x5C, CHR 0x22]
      else if c = CHR 0x5C then [CHR 0x5C, CHR 0x5C]
      else if c = CHR 0x08 then [CHR 0x5C, CHR ''b'']
      else if c = CHR 0x0C then [CHR 0x5C, CHR ''f'']
      else if c = CHR 0x0A then [CHR 0x5C, CHR ''n'']
      else if c = CHR 0x0D then [CHR 0x5C, CHR ''r'']
      else if c = CHR 0x09 then [CHR 0x5C, CHR ''t'']
      else if (of_char c :: nat) < 32
        then [CHR 0x5C, CHR ''u'', CHR ''0'', CHR ''0'',
              hex_digit (of_char c div 16), hex_digit (of_char c)]
      else [c])"

definition json_quote :: "string \<Rightarrow> string" where
  "json_quote s = CHR 0x22 # concat (map json_escape s) @ [CHR 0x22]"

text \<open>
  \<^verbatim>\<open>JSON.stringify(v)\<close> is \<^verbatim>\<open>undefined\<close> (here \<open>None\<close>) for \<^verbatim>\<open>undefined\<close> and a
  string otherwise. Non-finite numbers print as \<^verbatim>\<open>null\<close>; inside an array an
  \<^verbatim>\<open>undefined\<close> element prints as \<^verbatim>\<open>null\<close>, inside an object such a member is left
  out.
\<close>

fun json_stringify :: "platform \<Rightarrow> jsval \<Rightarrow> string option"
  and json_elements :: "platform \<Rightarrow> jsval list \<Rightarrow> string list"
  and json_members :: "platform \<Rightarrow> (string \<times> jsval) list \<Rightarrow> string list" where
  "json_stringify P JUndefined = None"
| "json_stringify P JNull = Some ''null''"
| "json_stringify P (JBool b) = Some (if b then ''true'' else ''false'')"
| "json_stringify P (JNum (Fin q)) = Some (number_to_string P q)"
| "json_stringify P (JNum n) = Some ''null''"
| "json_stringify P (JStr s) = Some (json_quote s)"
| "json_stringify P (JArr xs) = Some (''['' @ join '','' (json_elements P xs) @ '']'')"
| "json_stringify P (JObj kvs) = Some (''{'' @ join '','' (json_members P kvs) @ ''}'')"
| "json_elements P [] = []"
| "json_elements P (x # xs) =
     (case json_stringify P x of None \<Rightarrow> ''null'' | Some s \<Rightarrow> s) # json_elements P xs"
| "json_members P [] = []"
| "json_members P ((k, v) # kvs) =
     (case json_stringify P v of
        None \<Rightarrow> json_members P kvs
      | Some s \<Rightarrow> (json_quote k @ '':'' @ s) # json_members P kvs)"

section \<open>Configuration items\<close>

text \<open>
  The classes that carry a setting. \<^verbatim>\<open>RuleItem\<close>, \<^verbatim>\<open>Tab\<close>, \<^verbatim>\<open>Group\<close>,
  \<^verbatim>\<open>Rule\<close> and \<^verbatim>\<open>Text\<close> extend \<^verbatim>\<open>BooleanConfigItem\<close>;
  \<^verbatim>\<open>RangeConfigItem\<close> extends \<^verbatim>\<open>NumberConfigItem\<close>.
\<close>

datatype klass =
    ConfigItem
  | BooleanConfigItem
  | SelectConfigItem
  | NumberConfigItem
  | RangeConfigItem
  | RuleItem
  | Tab
  | Group
  | Rule
  | Text

text \<open>
  The properties of an item that the setting logic reads. \<open>config\<close> is the handle of
  the bound store entry, that is its key, once there is one. \<open>min_p\<close>, \<open>max_p\<close>
  and \<open>step\<close> hold what \<^verbatim>\<open>this.min\<close>, \<^verbatim>\<open>this.max\<close> and \<^verbatim>\<open>this.step\<close>
  evaluate to: the declared property, or the default of the class accessor
  (\<^verbatim>\<open>0\<close>, \<^verbatim>\<open>Infinity\<close>, \<^verbatim>\<open>1\<close>). \<open>always\<close> is the truth value of
  \<^verbatim>\<open>this.always\<close>, \<open>id_p\<close> the string \<^verbatim>\<open>this.id\<close> when there is one. A
  declaration can shadow any accessor or method of its class by a property of its own;
  \<^verbatim>\<open>min\<close>, \<^verbatim>\<open>max\<close>, \<^verbatim>\<open>step\<close> and \<^verbatim>\<open>always\<close> are followed in that, the
  methods and the accessor \<^verbatim>\<open>initial\<close> are those of the class.
\<close>

record item =
  cls :: klass
  id_p :: "string option"
  config :: "string option"
  configInitialized :: bool
  always :: bool
  select :: jsval
  min_p :: jsval
  max_p :: jsval
  step :: jsval

fun isArray :: "jsval \<Rightarrow> bool" where
  "isArray (JArr xs) = True"
| "isArray v = False"

text \<open>\<^verbatim>\<open>v[0]\<close> and \<^verbatim>\<open>v.value\<close> on a value that is neither \<^verbatim>\<open>null\<close> nor \<^verbatim>\<open>undefined\<close>.\<close>

fun index0 :: "jsval \<Rightarrow> jsval" where
  "index0 (JArr (x # xs)) = x"
| "index0 (JStr (c # cs)) = JStr [c]"
| "index0 (JObj kvs) = get_prop kvs ''0''"
| "index0 v = JUndefined"

fun value_of :: "jsval \<Rightarrow> jsval" where
  "value_of (JObj kvs) = get_prop kvs ''value''"
| "value_of v = JUndefined"

subsection \<open>Initial values\<close>

definition BooleanConfigItem_initial :: "item \<Rightarrow> jsval" where
  "BooleanConfigItem_initial it = JBool False"

definition SelectConfigItem_initial :: "item \<Rightarrow> jsval" where
  "SelectConfigItem_initial it =
     (if \<not> truthy (select it) then JNull
      else if \<not> truthy (index0 (select it)) then JNull
      else value_of (index0 (select it)))"

definition NumberConfigItem_initial :: "item \<Rightarrow> jsval" where
  "NumberConfigItem_initial it = min_p it"

text \<open>The accessor \<^verbatim>\<open>initial\<close>, dispatched on the class of the item.\<close>

fun initial :: "item \<Rightarrow> jsval" where
  "initial it =
     (case cls it of
        ConfigItem \<Rightarrow> JNull
      | SelectConfigItem \<Rightarrow> SelectConfigItem_initial it
      | NumberConfigItem \<Rightarrow> NumberConfigItem_initial it
      | RangeConfigItem \<Rightarrow> NumberConfigItem_initial it
      | _ \<Rightarrow> BooleanConfigItem_initial it)"

subsection \<open>Normalization\<close>

definition BooleanConfigItem_normalize :: "item \<Rightarrow> jsval \<Rightarrow> jsval" where
  "BooleanConfigItem_normalize it v =
     (if v = JUndefined \<or> v = JNull then BooleanConfigItem_initial it else JBool (truthy v))"

text \<open>
  \<^verbatim>\<open>this.select.find(item => item.value === value)\<close>: the first option whose
  value is strictly equal to the argument, \<^verbatim>\<open>undefined\<close> when there is none. Reading
  \<^verbatim>\<open>.value\<close> of a \<^verbatim>\<open>null\<close> or \<^verbatim>\<open>undefined\<close> option throws.
\<close>

fun select_find :: "jsval list \<Rightarrow> jsval \<Rightarrow> error + jsval" where
  "select_find [] v = Inr JUndefined"
| "select_find (x # xs) v =
     (if x = JUndefined \<or> x = JNull then Inl EngineTypeError
      else if strict_eq (value_of x) v then Inr x
      else select_find xs v)"

definition SelectConfigItem_normalize :: "item \<Rightarrow> jsval \<Rightarrow> error + jsval" where
  "SelectConfigItem_normalize it v =
     (case select it of
        JArr opts \<Rightarrow>
          (case select_find opts v of
             Inl e \<Rightarrow> Inl e
           | Inr found \<Rightarrow> if truthy found then Inr v else Inr (SelectConfigItem_initial it))
      | _ \<Rightarrow> Inr JNull)"

definition NumberConfigItem_normalize :: "platform \<Rightarrow> item \<Rightarrow> jsval \<Rightarrow> jsval" where
  "NumberConfigItem_normalize P it v =
     (let number = to_number P v in
      if \<not> isFinite number then NumberConfigItem_initial it
      else
        let number1 =
              (if is_own_number (min_p it) \<and> num_lt number (to_number P (min_p it))
               then to_number P (min_p it) else number);
            number2 =
              (if is_own_number (max_p it) \<and> num_gt number1 (to_number P (max_p it))
               then to_number P (max_p it) else number1);
            number3 =
              (if is_own_number (step it) \<and> isFinite (to_number P (step it))
               then num_sub number2
                      (num_rem (num_sub number2 (to_number P (min_p it)))
                               (to_number P (step it)))
               else number2)
        in JNum number3)"

text \<open>The method \<^verbatim>\<open>normalize\<close>, dispatched on the class of the item.\<close>

fun normalize :: "platform \<Rightarrow> item \<Rightarrow> jsval \<Rightarrow> error + jsval" where
  "normalize P it v =
     (case cls it of
        ConfigItem \<Rightarrow> Inr v
      | SelectConfigItem \<Rightarrow> SelectConfigItem_normalize it v
      | NumberConfigItem \<Rightarrow> Inr (NumberConfigItem_normalize P it v)
      | RangeConfigItem \<Rightarrow> Inr (NumberConfigItem_normalize P it v)
      | _ \<Rightarrow> Inr (BooleanConfigItem_normalize it v))"

section \<open>Declaring configuration items\<close>

text \<open>
  A declaration is the plain object handed to a constructor. \<open>props\<close> are the own
  properties the constructors read; a property that may be left to the class
  (\<^verbatim>\<open>min\<close>, \<^verbatim>\<open>max\<close>, \<^verbatim>\<open>step\<close>, \<^verbatim>\<open>always\<close>) is optional. \<^verbatim>\<open>parent\<close>
  refers to an object of the rule tree by its identity.
\<close>

record props =
  type_p :: jsval
  d_id :: "string option"
  d_config :: "string option"
  d_always :: "bool option"
  d_select :: jsval
  d_min :: "jsval option"
  d_max :: "jsval option"
  d_step :: "jsval option"
  parent :: "nat option"

text \<open>
  A constructed item with the constructed items of its \<^verbatim>\<open>ref\<close>. A bubble is a
  \<^verbatim>\<open>BaseConfigItem\<close> only: it has no setting.
\<close>

datatype built =
    ConfigNode item "(string \<times> built) list"
  | BubbleNode "(string \<times> built) list"

text \<open>
  An entry of \<^verbatim>\<open>ref\<close> is a declaration with its own \<^verbatim>\<open>ref\<close>, an item that is
  constructed already, or a value that is not an object.
\<close>

datatype decl =
    Decl props "(string \<times> decl) list"
  | Instance built
  | NotObject jsval

text \<open>
  The part of the \<^verbatim>\<open>ConfigItem\<close> constructor that follows \<^verbatim>\<open>super(item)\<close>, for an
  item of class \<open>k\<close>. The context \<open>ctx\<close>, when there is one, is given by the \<^verbatim>\<open>id\<close> it
  has at that moment; an absent \<^verbatim>\<open>id\<close> prints as \<^verbatim>\<open>undefined\<close>. Without a declared
  \<^verbatim>\<open>always\<close>, the accessor of \<^verbatim>\<open>Tab\<close> and of \<^verbatim>\<open>Group\<close> gives \<^verbatim>\<open>true\<close>, and
  the other classes have none.
\<close>

definition id_falsy :: "string option \<Rightarrow> bool" where
  "id_falsy i = (i = None \<or> i = Some [])"

definition ConfigItem_init :: "klass \<Rightarrow> props \<Rightarrow> string option option \<Rightarrow> item" where
  "ConfigItem_init k p ctx =
     \<lparr> cls = k,
       id_p = (case ctx of
                 None \<Rightarrow> d_id p
               | Some cid \<Rightarrow>
                   (case d_id p of
                      None \<Rightarrow> None
                    | Some i \<Rightarrow>
                        if i = [] then Some i
                        else Some ((case cid of None \<Rightarrow> ''undefined'' | Some c \<Rightarrow> c)
                                   @ ''.'' @ i))),
       config = d_config p,
       configInitialized = False,
       always = (case d_always p of Some b \<Rightarrow> b | None \<Rightarrow> k = Tab \<or> k = Group),
       select = d_select p,
       min_p = (case d_min p of Some v \<Rightarrow> v
                | None \<Rightarrow> if k = NumberConfigItem \<or> k = RangeConfigItem
                          then JNum (Fin 0) else JUndefined),
       max_p = (case d_max p of Some v \<Rightarrow> v
                | None \<Rightarrow> if k = NumberConfigItem \<or> k = RangeConfigItem
                          then JNum PosInf else JUndefined),
       step = (case d_step p of Some v \<Rightarrow> v
               | None \<Rightarrow> if k = NumberConfigItem \<or> k = RangeConfigItem
                         then JNum (Fin 1) else JUndefined) \<rparr>"

text \<open>
  \<^verbatim>\<open>select.some(item => item.value !== '' + item.value)\<close>: whether some option
  has a value that is not a string.
\<close>

fun some_not_string :: "platform \<Rightarrow> jsval list \<Rightarrow> error + bool" where
  "some_not_string P [] = Inr False"
| "some_not_string P (x # xs) =
     (if x = JUndefined \<or> x = JNull then Inl EngineTypeError
      else if \<not> strict_eq (value_of x) (JStr (to_string P (value_of x))) then Inr True
      else some_not_string P xs)"

text \<open>The checks of the \<^verbatim>\<open>SelectConfigItem\<close> constructor after \<^verbatim>\<open>super(item, parent)\<close>.\<close>

definition SelectConfigItem_check :: "platform \<Rightarrow> item \<Rightarrow> error option" where
  "SelectConfigItem_check P it =
     (if \<not> truthy (select it) \<or> \<not> isArray (select it)
      then Some (TypeError ''`select` attribute is required for select config item'')
      else case select it of
             JArr opts \<Rightarrow>
               (case some_not_string P opts of
                  Inl e \<Rightarrow> Some e
                | Inr True \<Rightarrow> Some (TypeError ''Select options' value should be string'')
                | Inr False \<Rightarrow> None)
           | _ \<Rightarrow> None)"

text \<open>\<^verbatim>\<open>configItemBuilder\<close> chooses the class by \<^verbatim>\<open>item.type\<close>; \<open>None\<close> is the bubble.\<close>

definition builder_class :: "jsval \<Rightarrow> klass option" where
  "builder_class t =
     (if t = JStr ''boolean'' then Some BooleanConfigItem
      else if t = JStr ''select'' then Some SelectConfigItem
      else if t = JStr ''number'' then Some NumberConfigItem
      else if t = JStr ''range'' then Some RangeConfigItem
      else if t = JStr ''bubble'' then None
      else Some ConfigItem)"

text \<open>
  \<open>construct P k p refs ctx\<close> is \<^verbatim>\<open>new k(item, context)\<close> for a class \<open>k\<close> that
  extends \<^verbatim>\<open>ConfigItem\<close>, on the declaration with properties \<open>p\<close> and \<^verbatim>\<open>ref\<close>
  entries \<open>refs\<close>: the base constructor, the \<^verbatim>\<open>ConfigItem\<close> constructor and, for a
  Select item, the checks of its constructor. It gives the item and the items of its
  \<^verbatim>\<open>ref\<close>. \<open>configItemBuilder\<close> chooses the constructor; the bubble has the base
  constructor only. \<open>BaseConfigItem\<close> is the loop of the base constructor over the keys
  of \<^verbatim>\<open>ref\<close>: an entry that is an instance is kept, any other entry gets its key as
  \<^verbatim>\<open>id\<close> when it has none and is built with this item as context, which is
  given by its \<^verbatim>\<open>id\<close>. The first exception ends the construction. The render
  identifier \<^verbatim>\<open>configId\<close>, a random string, is left out.
\<close>

fun construct ::
    "platform \<Rightarrow> klass \<Rightarrow> props \<Rightarrow> (string \<times> decl) list \<Rightarrow> string option option
      \<Rightarrow> error + item \<times> (string \<times> built) list"
  and configItemBuilder ::
    "platform \<Rightarrow> props \<Rightarrow> (string \<times> decl) list \<Rightarrow> string option option \<Rightarrow> error + built"
  and BaseConfigItem ::
    "platform \<Rightarrow> (string \<times> decl) list \<Rightarrow> string option \<Rightarrow> error + (string \<times> built) list"
  where
  "construct P k p refs ctx =
     (case BaseConfigItem P refs (d_id p) of
        Inl e \<Rightarrow> Inl e
      | Inr rs \<Rightarrow>
          (let it = ConfigItem_init k p ctx in
           if k = SelectConfigItem
           then (case SelectConfigItem_check P it of
                   Some e \<Rightarrow> Inl e
                 | None \<Rightarrow> Inr (it, rs))
           else Inr (it, rs)))"
| "configItemBuilder P p refs ctx =
     (case builder_class (type_p p) of
        None \<Rightarrow>
          (case BaseConfigItem P refs (d_id p) of
             Inl e \<Rightarrow> Inl e
           | Inr rs \<Rightarrow> Inr (BubbleNode rs))
      | Some k \<Rightarrow>
          (case construct P k p refs ctx of
             Inl e \<Rightarrow> Inl e
           | Inr (it, rs) \<Rightarrow> Inr (ConfigNode it rs)))"
| "BaseConfigItem P [] self_id = Inr []"
| "BaseConfigItem P ((key, Instance b) # rest) self_id =
     (case BaseConfigItem P rest self_id of
        Inl e \<Rightarrow> Inl e
      | Inr rs \<Rightarrow> Inr ((key, b) # rs))"
| "BaseConfigItem P ((key, NotObject v) # rest) self_id = Inl EngineTypeError"
| "BaseConfigItem P ((key, Decl p refs) # rest) self_id =
     (case configItemBuilder P (if id_falsy (d_id p) then p\<lparr>d_id := Some key\<rparr> else p) refs
             (Some self_id) of
        Inl e \<Rightarrow> Inl e
      | Inr b \<Rightarrow>
          (case BaseConfigItem P rest self_id of
             Inl e \<Rightarrow> Inl e
           | Inr rs \<Rightarrow> Inr ((key, b) # rs)))"

text \<open>\<^verbatim>\<open>new SelectConfigItem(item, parent)\<close>.\<close>

definition SelectConfigItem_new ::
    "platform \<Rightarrow> props \<Rightarrow> (string \<times> decl) list \<Rightarrow> string option option
      \<Rightarrow> error + item \<times> (string \<times> built) list" where
  "SelectConfigItem_new P p refs ctx = construct P SelectConfigItem p refs ctx"

section \<open>Reading and writing the setting\<close>

text \<open>
  Modelled from the spec: the persistent store behind \<^verbatim>\<open>config.user.key(id)\<close>, which
  is not part of the file. Its contract is \<^verbatim>\<open>get(key)\<close> giving the raw value,
  \<^verbatim>\<open>set(key, value)\<close> and \<^verbatim>\<open>addListener(key, callback)\<close>. A key that holds nothing
  reads as \<^verbatim>\<open>undefined\<close>. The record keeps, besides the contents, the calls of
  \<^verbatim>\<open>set\<close> and the keys a listener was added to, in the order they happened. Running
  the listeners is outside this development: the one \<^verbatim>\<open>initConfig\<close> adds only
  redraws rendered instances of the item.
\<close>

record store =
  contents :: "string \<rightharpoonup> jsval"
  writes :: "(string \<times> jsval) list"
  listeners :: "string list"

definition store_get :: "store \<Rightarrow> string \<Rightarrow> jsval" where
  "store_get st key = (case contents st key of None \<Rightarrow> JUndefined | Some v \<Rightarrow> v)"

definition store_set :: "store \<Rightarrow> string \<Rightarrow> jsval \<Rightarrow> store" where
  "store_set st key v = st\<lparr>contents := (contents st)(key \<mapsto> v), writes := writes st @ [(key, v)]\<rparr>"

definition store_addListener :: "store \<Rightarrow> string \<Rightarrow> store" where
  "store_addListener st key = st\<lparr>listeners := listeners st @ [key]\<rparr>"

text \<open>
  \<^verbatim>\<open>initConfig\<close>: nothing when the item is initialized; otherwise the item is bound to
  the store entry of its \<^verbatim>\<open>id\<close> unless it has a handle already, marked initialized,
  and a listener is added. An item with neither handle nor \<^verbatim>\<open>id\<close> throws before
  anything is changed.
\<close>

definition initConfig :: "item \<Rightarrow> store \<Rightarrow> error + item \<times> store" where
  "initConfig it st =
     (if configInitialized it then Inr (it, st)
      else case config it of
             Some key \<Rightarrow> Inr (it\<lparr>configInitialized := True\<rparr>, store_addListener st key)
           | None \<Rightarrow>
               (case id_p it of
                  None \<Rightarrow> Inl (Error ''id is required to init config'')
                | Some i \<Rightarrow>
                    if i = [] then Inl (Error ''id is required to init config'')
                    else Inr (it\<lparr>config := Some i, configInitialized := True\<rparr>,
                              store_addListener st i)))"

text \<open>A result of \<^verbatim>\<open>JSON.stringify\<close> as a value.\<close>

fun opt_string :: "string option \<Rightarrow> jsval" where
  "opt_string None = JUndefined"
| "opt_string (Some s) = JStr s"

text \<open>
  \<^verbatim>\<open>getConfig\<close> and \<^verbatim>\<open>setConfig\<close> return the value or the exception, together
  with the item and the store as the call leaves them. The test before the write in
  \<^verbatim>\<open>getConfig\<close> is
  \<^verbatim>\<open>value && JSON.stringify(value) !== normalize && JSON.stringify(normalize)\<close>,
  in which \<^verbatim>\<open>!==\<close> binds tighter than \<^verbatim>\<open>&&\<close>: the serialized stored value is
  compared with the normalized value itself.
\<close>

definition getConfig :: "platform \<Rightarrow> item \<Rightarrow> store \<Rightarrow> (error + jsval) \<times> item \<times> store" where
  "getConfig P it st =
     (case initConfig it st of
        Inl e \<Rightarrow> (Inl e, it, st)
      | Inr (it1, st1) \<Rightarrow>
          (case config it1 of
             None \<Rightarrow> (Inl EngineTypeError, it1, st1)
           | Some key \<Rightarrow>
               let v = store_get st1 key in
               (case normalize P it1 v of
                  Inl e \<Rightarrow> (Inl e, it1, st1)
                | Inr n \<Rightarrow>
                    if truthy v
                       \<and> \<not> strict_eq (opt_string (json_stringify P v)) n
                       \<and> truthy (opt_string (json_stringify P n))
                    then (Inr n, it1, store_set st1 key n)
                    else (Inr n, it1, st1))))"

definition setConfig :: "platform \<Rightarrow> item \<Rightarrow> jsval \<Rightarrow> store \<Rightarrow> (error + jsval) \<times> item \<times> store" where
  "setConfig P it v st =
     (case initConfig it st of
        Inl e \<Rightarrow> (Inl e, it, st)
      | Inr (it1, st1) \<Rightarrow>
          (case normalize P it1 v of
             Inl e \<Rightarrow> (Inl e, it1, st1)
           | Inr n \<Rightarrow>
               (case config it1 of
                  None \<Rightarrow> (Inl EngineTypeError, it1, st1)
                | Some key \<Rightarrow> (Inr n, it1, store_set st1 key n))))"

text \<open>\<^verbatim>\<open>isEnabled\<close> is \<^verbatim>\<open>this.always || this.getConfig()\<close>.\<close>

definition isEnabled :: "platform \<Rightarrow> item \<Rightarrow> store \<Rightarrow> (error + jsval) \<times> item \<times> store" where
  "isEnabled P it st = (if always it then (Inr (JBool True), it, st) else getConfig P it st)"

section \<open>Template tokens\<close>

text \<open>
  \<^verbatim>\<open>tokenize\<close> scans the template with the regular expression
  \<^verbatim>\<open>(?:\{\{([^\}]+)\}\})|(?:\[\[([^\]]+)\]\])|(?:(\|\||\|))|(?:([^\|\[\{\&]+|&[^;]+;))\<close>
  under the flag \<^verbatim>\<open>g\<close>. A match is the array the engine returns: the matched text
  followed by the four groups, a group that took no part being \<^verbatim>\<open>undefined\<close>
  (\<open>None\<close>). Each function below tries one alternative at the start of the string and
  gives the match with the rest of the string behind it.
\<close>

type_synonym regexp_match = "string option list"

text \<open>
  \<^verbatim>\<open>\{\{([^\}]+)\}\}\<close> and \<^verbatim>\<open>\[\[([^\]]+)\]\]\<close>: the doubled opening character, the
  longest run of characters other than the closing one, which must not be empty, and the
  doubled closing character. A shorter run cannot help, since the character after it
  would not be the closing one.
\<close>

definition match_delimited :: "char \<Rightarrow> char \<Rightarrow> string \<Rightarrow> (string \<times> string) option" where
  "match_delimited opening closing s =
     (case s of
        a # b # t \<Rightarrow>
          if a = opening \<and> b = opening then
            (let body = takeWhile (\<lambda>c. c \<noteq> closing) t;
                 rest = dropWhile (\<lambda>c. c \<noteq> closing) t
             in case rest of
                  x # y # r \<Rightarrow> if body \<noteq> [] \<and> y = closing then Some (body, r) else None
                | _ \<Rightarrow> None)
          else None
      | _ \<Rightarrow> None)"

text \<open>\<^verbatim>\<open>(\|\||\|)\<close>: two bars when there are two, else one.\<close>

definition match_splitter :: "string \<Rightarrow> (string \<times> string) option" where
  "match_splitter s =
     (case s of
        a # t \<Rightarrow>
          if a = CHR ''|'' then
            (case t of
               b # r \<Rightarrow> if b = CHR ''|'' then Some (''||'', r) else Some (''|'', t)
             | [] \<Rightarrow> Some (''|'', t))
          else None
      | [] \<Rightarrow> None)"

text \<open>
  \<^verbatim>\<open>([^\|\[\{\&]+|&[^;]+;)\<close>: the longest run of characters other than
  \<^verbatim>\<open>| [ { &\<close> when it is not empty; else an ampersand, the longest run of characters
  other than the semicolon, which must not be empty, and a semicolon.
\<close>

definition match_text :: "string \<Rightarrow> (string \<times> string) option" where
  "match_text s =
     (let run = takeWhile (\<lambda>c. c \<notin> set ''|[{&'') s in
      if run \<noteq> [] then Some (run, dropWhile (\<lambda>c. c \<notin> set ''|[{&'') s)
      else case s of
             a # t \<Rightarrow>
               if a = CHR ''&'' then
                 (let body = takeWhile (\<lambda>c. c \<noteq> CHR '';'') t;
                      rest = dropWhile (\<lambda>c. c \<noteq> CHR '';'') t
                  in case rest of
                       x # r \<Rightarrow> if body \<noteq> [] then Some (a # body @ [x], r) else None
                     | [] \<Rightarrow> None)
               else None
           | [] \<Rightarrow> None)"

text \<open>The alternatives in their order, at the start of the string.\<close>

definition match_here :: "string \<Rightarrow> (regexp_match \<times> string) option" where
  "match_here s =
     (case match_delimited (CHR ''{'') (CHR ''}'') s of
        Some (g, r) \<Rightarrow> Some ([Some (''{{'' @ g @ ''}}''), Some g, None, None, None], r)
      | None \<Rightarrow>
     (case match_delimited (CHR ''['') (CHR '']'') s of
        Some (g, r) \<Rightarrow> Some ([Some (''[['' @ g @ '']]''), None, Some g, None, None], r)
      | None \<Rightarrow>
     (case match_splitter s of
        Some (g, r) \<Rightarrow> Some ([Some g, None, None, Some g, None], r)
      | None \<Rightarrow>
     (case match_text s of
        Some (g, r) \<Rightarrow> Some ([Some g, None, None, None, Some g], r)
      | None \<Rightarrow> None))))"

text \<open>
  \<^verbatim>\<open>parseReg.exec(template)\<close> from the position where the previous match ended: the
  first position from there on at which an alternative matches. No alternative matches
  the empty string.
\<close>

fun exec :: "string \<Rightarrow> (regexp_match \<times> string) option" where
  "exec [] = None"
| "exec (c # cs) =
     (case match_here (c # cs) of
        Some m \<Rightarrow> Some m
      | None \<Rightarrow> exec cs)"

text \<open>The loop that collects the matches until \<^verbatim>\<open>exec\<close> gives \<^verbatim>\<open>null\<close>.\<close>

function matches :: "string \<Rightarrow> regexp_match list" where
  "matches s =
     (case exec s of
        None \<Rightarrow> []
      | Some (m, rest) \<Rightarrow> m # matches rest)"
  by pat_completeness auto
termination
proof (relation "measure length")
  show "wf (measure length)" by simp
next
  fix s :: string and x2 :: "regexp_match \<times> string" and m rest
  assume ex: "exec s = Some x2" and x2: "(m, rest) = x2"
  have delim: "length r < length t"
    if "match_delimited a b t = Some (g, r)" for a b t g r
    using that length_dropWhile_le [of "\<lambda>c. c \<noteq> b" "tl (tl t)"]
    by (auto simp: match_delimited_def Let_def split: list.splits if_splits)
  have splitter: "length r < length t" if "match_splitter t = Some (g, r)" for t g r
    using that by (auto simp: match_splitter_def split: list.splits if_splits)
  have textual: "length r < length t" if "match_text t = Some (g, r)" for t g r
  proof (cases "takeWhile (\<lambda>c. c \<notin> set ''|[{&'') t = []")
    case False
    then obtain c cs where t: "t = c # cs" and c: "c \<notin> set ''|[{&''"
      by (cases t) (auto split: if_splits)
    then have "r = dropWhile (\<lambda>c. c \<notin> set ''|[{&'') cs"
      using that False by (simp add: match_text_def Let_def)
    then show ?thesis using t length_dropWhile_le [of "\<lambda>c. c \<notin> set ''|[{&''" cs] by simp
  next
    case True
    then show ?thesis
      using that length_dropWhile_le [of "\<lambda>c. c \<noteq> CHR '';''" "tl t"]
      by (auto simp: match_text_def Let_def split: list.splits if_splits)
  qed
  have here: "length r < length t" if "match_here t = Some (g, r)" for t g r
    using that delim splitter textual
    by (auto simp: match_here_def split: option.splits)
  have "length r < length t" if "exec t = Some (g, r)" for t g r
    using that
  proof (induction t)
    case Nil
    then show ?case by simp
  next
    case (Cons c cs)
    then show ?case using here [of "c # cs" g r]
      by (auto split: option.splits)
  qed
  then show "(rest, s) \<in> measure length" using ex x2 by auto
qed

record token =
  token_type :: string
  token_value :: string

text \<open>\<^verbatim>\<open>typed.findIndex(x => x)\<close>: the first group that is a string and not empty.\<close>

fun findIndex :: "string option list \<Rightarrow> nat option" where
  "findIndex [] = None"
| "findIndex (x # xs) =
     (if x \<noteq> None \<and> x \<noteq> Some [] then Some 0
      else case findIndex xs of None \<Rightarrow> None | Some i \<Rightarrow> Some (Suc i))"

definition token_of_match :: "regexp_match \<Rightarrow> token option" where
  "token_of_match m =
     (let typed = tl m; types = [''child'', ''rule'', ''splitter'', ''text''] in
      case findIndex typed of
        None \<Rightarrow> None
      | Some i \<Rightarrow>
          (case typed ! i of
             Some v \<Rightarrow> Some \<lparr> token_type = types ! i, token_value = v \<rparr>
           | None \<Rightarrow> None))"

definition tokenize :: "string \<Rightarrow> token list" where
  "tokenize template = List.map_filter token_of_match (matches template)"

definition filteredTokens :: "token list \<Rightarrow> string list \<Rightarrow> token list" where
  "filteredTokens tokens acceptTypes = filter (\<lambda>t. token_type t \<in> set acceptTypes) tokens"

text \<open>
  The rendering modes of \<^verbatim>\<open>ruleRender\<close>, and the token types \<^verbatim>\<open>itemRender\<close> accepts:
  with a mode, the entry of the table, which is also remembered in \<^verbatim>\<open>acceptTypes\<close>;
  without one, the remembered types other than \<^verbatim>\<open>rule\<close>.
\<close>

datatype mode = Normal | Recursive | TextOnly

fun mode_types :: "mode \<Rightarrow> string list" where
  "mode_types Normal = [''child'', ''splitter'', ''text'']"
| "mode_types Recursive = [''child'', ''splitter'', ''text'', ''rule'']"
| "mode_types TextOnly = [''child'', ''text'']"

definition ruleRender_mode :: "bool \<Rightarrow> bool \<Rightarrow> mode" where
  "ruleRender_mode fullDom isRoot = (if fullDom then if isRoot then Recursive else Normal else TextOnly)"

definition itemRender_types :: "mode option \<Rightarrow> string list \<Rightarrow> string list \<times> string list" where
  "itemRender_types md acceptTypes =
     (case md of
        Some m \<Rightarrow> (mode_types m, mode_types m)
      | None \<Rightarrow> (filter (\<lambda>t. t \<noteq> ''rule'') acceptTypes, acceptTypes))"

text \<open>
  The tokens \<^verbatim>\<open>itemRender\<close> renders, in the order it renders them:
  \<^verbatim>\<open>filteredTokens(tokenize(template), types)\<close>.
\<close>

definition itemRender_tokens :: "string \<Rightarrow> mode option \<Rightarrow> string list \<Rightarrow> token list" where
  "itemRender_tokens template md acceptTypes =
     filteredTokens (tokenize template) (fst (itemRender_types md acceptTypes))"

section \<open>The rule tree\<close>

subsection \<open>Declaring tabs, groups and rules\<close>

text \<open>
  The objects the constructors see, by identity. An object is an instance of one of the
  classes, with its item and the items of its \<^verbatim>\<open>ref\<close>, or some other object
  (\<open>instance_of = None\<close>); \<open>children\<close> is its \<^verbatim>\<open>children\<close> array when it has one.
  The identity of an object is its position in \<open>objects\<close>. \<open>tabs\<close> is the global
  \<^verbatim>\<open>rule.tabs\<close>.
\<close>

record obj =
  instance_of :: "item option"
  ref_items :: "(string \<times> built) list"
  children :: "nat list option"

record registry =
  objects :: "obj list"
  tabs :: "nat list"

definition lookup :: "registry \<Rightarrow> nat \<Rightarrow> obj option" where
  "lookup reg r = (if r < length (objects reg) then Some (objects reg ! r) else None)"

text \<open>\<^verbatim>\<open>v instanceof Tab\<close> and \<^verbatim>\<open>v instanceof Group\<close> for the declared \<^verbatim>\<open>parent\<close>.\<close>

definition instanceof :: "registry \<Rightarrow> nat option \<Rightarrow> klass \<Rightarrow> bool" where
  "instanceof reg v k =
     (case v of
        None \<Rightarrow> False
      | Some r \<Rightarrow>
          (case lookup reg r of
             None \<Rightarrow> False
           | Some ob \<Rightarrow>
               (case instance_of ob of
                  None \<Rightarrow> False
                | Some it \<Rightarrow> cls it = k)))"

text \<open>
  The \<^verbatim>\<open>RuleItem\<close> constructor for an object of class \<open>k\<close>: the chain of
  \<^verbatim>\<open>super(item, null)\<close>, then \<^verbatim>\<open>this.parent.children.push(this)\<close> when a parent is
  declared. The push throws when the parent has no \<^verbatim>\<open>children\<close> array, as is the
  case for a parent that is no object of the registry. The result is the identity of the
  new object, or the exception, with the registry as the call leaves it.
\<close>

definition RuleItem_new ::
    "platform \<Rightarrow> klass \<Rightarrow> props \<Rightarrow> (string \<times> decl) list \<Rightarrow> registry
      \<Rightarrow> (error + nat) \<times> registry" where
  "RuleItem_new P k p refs reg =
     (case construct P k p refs None of
        Inl e \<Rightarrow> (Inl e, reg)
      | Inr (it, rs) \<Rightarrow>
          (let this = length (objects reg);
               ob = \<lparr> instance_of = Some it, ref_items = rs, children = None \<rparr>
           in case parent p of
                None \<Rightarrow> (Inr this, reg\<lparr>objects := objects reg @ [ob]\<rparr>)
              | Some q \<Rightarrow>
                  (case lookup reg q of
                     None \<Rightarrow> (Inl EngineTypeError, reg)
                   | Some po \<Rightarrow>
                       (case children po of
                          None \<Rightarrow> (Inl EngineTypeError, reg)
                        | Some cs \<Rightarrow>
                            (Inr this,
                             reg\<lparr>objects :=
                                   (objects reg)[q := po\<lparr>children := Some (cs @ [this])\<rparr>]
                                   @ [ob]\<rparr>)))))"

definition set_children :: "registry \<Rightarrow> nat \<Rightarrow> registry" where
  "set_children reg r =
     reg\<lparr>objects := (objects reg)[r := (objects reg ! r)\<lparr>children := Some []\<rparr>]\<rparr>"

definition set_always :: "registry \<Rightarrow> nat \<Rightarrow> registry" where
  "set_always reg r =
     reg\<lparr>objects :=
           (objects reg)[r := (objects reg ! r)
              \<lparr>instance_of := map_option (\<lambda>it. it\<lparr>always := True\<rparr>) (instance_of (objects reg ! r))\<rparr>]\<rparr>"

text \<open>
  \<^verbatim>\<open>rule.Tab\<close>, \<^verbatim>\<open>rule.Group\<close>, \<^verbatim>\<open>rule.Rule\<close> and \<^verbatim>\<open>rule.Text\<close>. A text sets
  its own \<^verbatim>\<open>always\<close> after the constructor of \<^verbatim>\<open>Rule\<close>.
\<close>

definition tabBuilder ::
    "platform \<Rightarrow> props \<Rightarrow> (string \<times> decl) list \<Rightarrow> registry \<Rightarrow> (error + nat) \<times> registry" where
  "tabBuilder P p refs reg =
     (case RuleItem_new P Tab p refs reg of
        (Inl e, reg1) \<Rightarrow> (Inl e, reg1)
      | (Inr this, reg1) \<Rightarrow>
          (let reg2 = set_children reg1 this in (Inr this, reg2\<lparr>tabs := tabs reg2 @ [this]\<rparr>)))"

definition groupBuilder ::
    "platform \<Rightarrow> props \<Rightarrow> (string \<times> decl) list \<Rightarrow> registry \<Rightarrow> (error + nat) \<times> registry" where
  "groupBuilder P p refs reg =
     (if \<not> instanceof reg (parent p) Tab then (Inl (TypeError ''Group must in some Tab''), reg)
      else case RuleItem_new P Group p refs reg of
             (Inl e, reg1) \<Rightarrow> (Inl e, reg1)
           | (Inr this, reg1) \<Rightarrow> (Inr this, set_children reg1 this))"

definition Rule_new ::
    "platform \<Rightarrow> klass \<Rightarrow> props \<Rightarrow> (string \<times> decl) list \<Rightarrow> registry
      \<Rightarrow> (error + nat) \<times> registry" where
  "Rule_new P k p refs reg =
     (if \<not> instanceof reg (parent p) Group then (Inl (TypeError ''Rule must in some Group''), reg)
      else RuleItem_new P k p refs reg)"

definition ruleBuilder ::
    "platform \<Rightarrow> props \<Rightarrow> (string \<times> decl) list \<Rightarrow> registry \<Rightarrow> (error + nat) \<times> registry" where
  "ruleBuilder P p refs reg = Rule_new P Rule p refs reg"

definition textBuilder ::
    "platform \<Rightarrow> props \<Rightarrow> (string \<times> decl) list \<Rightarrow> registry \<Rightarrow> (error + nat) \<times> registry" where
  "textBuilder P p refs reg =
     (case Rule_new P Text p refs reg of
        (Inl e, reg1) \<Rightarrow> (Inl e, reg1)
      | (Inr this, reg1) \<Rightarrow> (Inr this, set_always reg1 this))"

subsection \<open>Query\<close>

text \<open>
  The tree as \<^verbatim>\<open>query\<close> walks it: a node has its identity, its class when it is an
  instance of one, what else belongs to it, and the nodes of its \<^verbatim>\<open>children\<close> array.
  An object that is reached along several paths occurs once on each path, with the same
  identity.
\<close>

datatype 'a node = Node (oid: nat) (node_cls: "klass option") (payload: 'a) (kids: "'a node list")

definition is_Tab_or_Group :: "'a node \<Rightarrow> bool" where
  "is_Tab_or_Group n = (node_cls n = Some Tab \<or> node_cls n = Some Group)"

text \<open>\<^verbatim>\<open>item instanceof Rule\<close>: a rule or a text.\<close>

definition is_Rule :: "'a node \<Rightarrow> bool" where
  "is_Rule n = (node_cls n = Some Rule \<or> node_cls n = Some Text)"

text \<open>
  \<^verbatim>\<open>result.add(item)\<close> on a \<^verbatim>\<open>Set\<close>, kept as the list of its elements in insertion
  order: an object that is in the set already is not added again.
\<close>

definition set_add :: "'a node \<Rightarrow> 'a node list \<Rightarrow> 'a node list" where
  "set_add item result = (if oid item \<in> oid ` set result then result else result @ [item])"

text \<open>The inner function \<^verbatim>\<open>query(items)\<close>, with the set it fills.\<close>

fun query_items :: "'a node list \<Rightarrow> 'a node list \<Rightarrow> 'a node list" where
  "query_items [] result = result"
| "query_items (Node i k a cs # items) result =
     (let item = Node i k a cs;
          result1 = (if is_Tab_or_Group item then query_items cs result else result);
          result2 = (if \<not> is_Rule item then result1 else set_add item result1)
      in query_items items result2)"

text \<open>\<^verbatim>\<open>rule.query({ base })\<close>, where \<open>None\<close> stands for a call without \<^verbatim>\<open>base\<close>.\<close>

definition query :: "'a node list \<Rightarrow> 'a node list option \<Rightarrow> 'a node list" where
  "query all_tabs base = query_items (case base of None \<Rightarrow> all_tabs | Some b \<Rightarrow> b) []"

text \<open>
  The words of the specification: the nodes a depth-first walk visits, which descends
  into the children of tabs and groups only; of a list of nodes, the first occurrence of
  each identity.
\<close>

fun visited :: "'a node \<Rightarrow> 'a node list" where
  "visited (Node i k a cs) =
     Node i k a cs # (if is_Tab_or_Group (Node i k a cs) then concat (map visited cs) else [])"

fun first_occurrences :: "'a node list \<Rightarrow> 'a node list" where
  "first_occurrences [] = []"
| "first_occurrences (n # ns) = n # first_occurrences (filter (\<lambda>m. oid m \<noteq> oid n) ns)"

definition depth_first_rules :: "'a node list \<Rightarrow> 'a node list" where
  "depth_first_rules base = first_occurrences (filter is_Rule (concat (map visited base)))"

subsection \<open>Executing the rules\<close>

text \<open>
  The state a rule runs in. \<open>settings\<close> holds the item of each object, by identity.
  Modelled from the spec: the style injector (\<^verbatim>\<open>rule.style\<close> with \<^verbatim>\<open>append(cssText)\<close>)
  and the debug log (\<^verbatim>\<open>util.debug\<close>) are not part of the file; \<open>style\<close> is the list of
  the texts appended, \<open>debug_log\<close> the list of the rules and exceptions logged.
  \<open>page\<close> stands for what else of the host page the callbacks of the rules change.
\<close>

record world =
  settings_store :: store
  settings :: "nat \<Rightarrow> item"
  style :: "string list"
  debug_log :: "(nat \<times> error) list"
  page :: "string list"

text \<open>
  What a rule declares for its execution. \<^verbatim>\<open>css\<close> and \<^verbatim>\<open>acss\<close> are a string, a
  function or anything else, which is ignored; \<^verbatim>\<open>init\<close> and \<^verbatim>\<open>ainit\<close> are a function
  or ignored. A function may change the state and may throw.
\<close>

datatype css_prop =
    NoCss
  | CssString string
  | CssFunction "world \<Rightarrow> (error + string) \<times> world"

record rule =
  css :: css_prop
  acss :: css_prop
  init :: "(world \<Rightarrow> error option \<times> world) option"
  ainit :: "(world \<Rightarrow> error option \<times> world) option"

text \<open>The strings one of \<^verbatim>\<open>css\<close> and \<^verbatim>\<open>acss\<close> pushes on \<^verbatim>\<open>styles\<close>.\<close>

fun push_styles :: "css_prop \<Rightarrow> world \<Rightarrow> (error + string list) \<times> world" where
  "push_styles NoCss w = (Inr [], w)"
| "push_styles (CssString s) w = (Inr [s], w)"
| "push_styles (CssFunction f) w =
     (case f w of
        (Inl e, w1) \<Rightarrow> (Inl e, w1)
      | (Inr s, w1) \<Rightarrow> (Inr [s], w1))"

fun call :: "(world \<Rightarrow> error option \<times> world) option \<Rightarrow> world \<Rightarrow> error option \<times> world" where
  "call None w = (None, w)"
| "call (Some f) w = f w"

definition style_append :: "world \<Rightarrow> string \<Rightarrow> world" where
  "style_append w cssText = w\<lparr>style := style w @ [cssText]\<rparr>"

definition util_debug :: "nat \<Rightarrow> error \<Rightarrow> world \<Rightarrow> world" where
  "util_debug this e w = w\<lparr>debug_log := debug_log w @ [(this, e)]\<rparr>"

text \<open>
  The body of the \<^verbatim>\<open>try\<close> block of \<^verbatim>\<open>execute\<close>: the exception that leaves it, if any,
  and the state at that moment.
\<close>

definition try_block :: "rule \<Rightarrow> bool \<Rightarrow> world \<Rightarrow> error option \<times> world" where
  "try_block r enabled w =
     (case push_styles (css r) w of
        (Inl e, w1) \<Rightarrow> (Some e, w1)
      | (Inr styles1, w1) \<Rightarrow>
     (case (if enabled then push_styles (acss r) w1 else (Inr [], w1)) of
        (Inl e, w2) \<Rightarrow> (Some e, w2)
      | (Inr styles2, w2) \<Rightarrow>
     (case call (init r) (style_append w2 (join [CHR 0x0A] (styles1 @ styles2))) of
        (Some e, w3) \<Rightarrow> (Some e, w3)
      | (None, w3) \<Rightarrow>
          if enabled then call (ainit r) w3 else (None, w3))))"

text \<open>
  \<^verbatim>\<open>execute\<close>: \<^verbatim>\<open>this.isEnabled()\<close> first, outside the \<^verbatim>\<open>try\<close> block, then the block,
  whose exception is logged. The result is the exception that leaves \<^verbatim>\<open>execute\<close>, if
  any.
\<close>

definition execute :: "platform \<Rightarrow> rule node \<Rightarrow> world \<Rightarrow> error option \<times> world" where
  "execute P n w =
     (case isEnabled P (settings w (oid n)) (settings_store w) of
        (res, it1, st1) \<Rightarrow>
          (let w1 = w\<lparr>settings := (settings w)(oid n := it1), settings_store := st1\<rparr> in
           case res of
             Inl e \<Rightarrow> (Some e, w1)
           | Inr enabled \<Rightarrow>
               (case try_block (payload n) (truthy enabled) w1 of
                  (None, w2) \<Rightarrow> (None, w2)
                | (Some e, w2) \<Rightarrow> (None, util_debug (oid n) e w2))))"

text \<open>\<^verbatim>\<open>rules.forEach(rule => rule.execute())\<close>: an exception ends the loop.\<close>

fun forEach_execute :: "platform \<Rightarrow> rule node list \<Rightarrow> world \<Rightarrow> error option \<times> world" where
  "forEach_execute P [] w = (None, w)"
| "forEach_execute P (n # ns) w =
     (case execute P n w of
        (Some e, w1) \<Rightarrow> (Some e, w1)
      | (None, w1) \<Rightarrow> forEach_execute P ns w1)"

text \<open>\<^verbatim>\<open>rule.init\<close>: a fresh style sheet, then every rule of \<^verbatim>\<open>rule.query()\<close>.\<close>

definition rule_init :: "platform \<Rightarrow> rule node list \<Rightarrow> world \<Rightarrow> error option \<times> world" where
  "rule_init P all_tabs w = forEach_execute P (query all_tabs None) (w\<lparr>style := []\<rparr>)"

section \<open>Vocabulary of the properties\<close>

fun is_string :: "jsval \<Rightarrow> bool" where
  "is_string (JStr s) = True"
| "is_string v = False"

text \<open>A declared option list whose options all have a string as value.\<close>

fun string_options :: "jsval \<Rightarrow> bool" where
  "string_options (JArr opts) = list_all (\<lambda>x. is_string (value_of x)) opts"
| "string_options v = False"

definition is_number_item :: "item \<Rightarrow> bool" where
  "is_number_item it = (cls it = NumberConfigItem \<or> cls it = RangeConfigItem)"

text \<open>
  Inputs of the worked examples. None of the examples converts between strings and
  finite numbers, so the two conversions of the example engine are never consulted.
  A number written in decimal in the source, such as \<^verbatim>\<open>0.7\<close>, is the binary64 value
  nearest to it, \<open>binary64 (7 / 10)\<close>.
\<close>

definition example_platform :: platform where
  "example_platform =
     \<lparr> string_to_number = (\<lambda>s. if s = [] then Fin 0 else NaN),
       number_to_string = (\<lambda>q. ''0'') \<rparr>"

definition example_item :: item where
  "example_item =
     \<lparr> cls = ConfigItem, id_p = Some ''x'', config = None, configInitialized = False,
       always = False, select = JUndefined, min_p = JUndefined, max_p = JUndefined,
       step = JUndefined \<rparr>"

definition number_item :: "jsnum \<Rightarrow> jsnum \<Rightarrow> jsnum \<Rightarrow> item" where
  "number_item lo hi st =
     example_item\<lparr>cls := NumberConfigItem, min_p := JNum lo, max_p := JNum hi, step := JNum st\<rparr>"

definition select_option :: "string \<Rightarrow> jsval" where
  "select_option s = JObj [(''value'', JStr s), (''text'', JStr s)]"

definition select_item :: "jsval list \<Rightarrow> item" where
  "select_item opts = example_item\<lparr>cls := SelectConfigItem, select := JArr opts\<rparr>"

definition example_props :: props where
  "example_props =
     \<lparr> type_p = JUndefined, d_id = Some ''x'', d_config = None, d_always = None,
       d_select = JUndefined, d_min = None, d_max = None, d_step = None, parent = None \<rparr>"

definition example_store :: "jsval \<Rightarrow> store" where
  "example_store v = \<lparr> contents = [''x'' \<mapsto> v], writes = [], listeners = [] \<rparr>"

text \<open>A registry with one tab, which has no children yet.\<close>

definition example_registry :: registry where
  "example_registry =
     \<lparr> objects = [\<lparr> instance_of = Some (example_item\<lparr>cls := Tab, always := True\<rparr>),
                     ref_items = [], children = Some [] \<rparr>],
       tabs = [0] \<rparr>"


definition rule_B :: "rule node" where
  "rule_B = Node 2 (Some Rule)
     \<lparr> css = CssString ''.b{}'', acss = CssFunction (\<lambda>w. (Inr ''.b2{}'', w)),
       init = Some (\<lambda>w. (None, w\<lparr>page := page w @ [''B.init'']\<rparr>)),
       ainit = Some (\<lambda>w. (None, w\<lparr>page := page w @ [''B.ainit'']\<rparr>)) \<rparr> []"

definition rule_C :: "rule node" where
  "rule_C = Node 3 (Some Rule) \<lparr> css = CssString ''.c{}'', acss = NoCss, init = None, ainit = None \<rparr> []"

definition example_world :: world where
  "example_world =
     \<lparr> settings_store = \<lparr> contents = [''b'' \<mapsto> JBool True], writes = [], listeners = [] \<rparr>,
       settings = (\<lambda>i. example_item\<lparr>cls := Rule,
                     id_p := (if i = 1 then Some ''a'' else if i = 2 then Some ''b'' else None)\<rparr>),
       style = [], debug_log = [], page = [] \<rparr>"

text \<open>
  Two tabs that share the group \<open>11\<close>; the group holds the rules \<open>12\<close> and \<open>13\<close> and
  an object that is no rule item, the second tab holds the text \<open>14\<close> as well.
\<close>

definition leaf :: "nat \<Rightarrow> klass \<Rightarrow> unit node" where
  "leaf i k = Node i (Some k) () []"

definition example_group :: "unit node" where
  "example_group = Node 11 (Some Group) () [leaf 12 Rule, leaf 13 Rule, Node 15 None () []]"

definition example_forest :: "unit node list" where
  "example_forest =
     [Node 10 (Some Tab) () [example_group],
      Node 20 (Some Tab) () [example_group, leaf 14 Text]]"


text \<open>An item that cannot be bound to the store: no handle and no \<^verbatim>\<open>id\<close>.\<close>

definition lacks_id :: "item \<Rightarrow> bool" where
  "lacks_id it =
     (\<not> always it \<and> \<not> configInitialized it \<and> config it = None \<and> id_falsy (id_p it))"

section \<open>Normalization of numbers\<close>

text \<open>
  Evaluation of the rounding at numerals, and the binary64 values of the decimal
  literals of the examples.
\<close>

lemma halvings_numeral:
  "halvings (numeral k) x = (if 2 \<le> x then Suc (halvings (pred_numeral k) (x / 2)) else 0)"
  by (simp add: numeral_eq_Suc)

lemma doublings_numeral:
  "doublings (numeral k) x = (if x < 1 then Suc (doublings (pred_numeral k) (2 * x)) else 0)"
  by (simp add: numeral_eq_Suc)

lemmas binary64_eval = binary64_def exponent_def pow2_def round_even_def Let_def trunc_def
  halvings_numeral doublings_numeral

lemmas number_normalize_eval = number_item_def example_item_def example_platform_def
  NumberConfigItem_normalize_def NumberConfigItem_initial_def num_gt_def

lemma binary64_tenth: "binary64 (1 / 10) = Fin (3602879701896397 / 36028797018963968)"
  by (simp add: binary64_eval)

lemma binary64_seven_tenths: "binary64 (7 / 10) = Fin (3152519739159347 / 4503599627370496)"
  by (simp add: binary64_eval)

lemma binary64_four_tenths: "binary64 (4 / 10) = Fin (3602879701896397 / 9007199254740992)"
  by (simp add: binary64_eval)

lemma binary64_55_hundredths: "binary64 (55 / 100) = Fin (2476979795053773 / 4503599627370496)"
  by (simp add: binary64_eval)

text \<open>
  Claim C5 on two Number items with finite \<^verbatim>\<open>min\<close>, \<^verbatim>\<open>max\<close> and \<^verbatim>\<open>step\<close>. With
  \<^verbatim>\<open>min = 0.1\<close>, \<^verbatim>\<open>max = 1\<close>, \<^verbatim>\<open>step = 1\<close>, the input \<^verbatim>\<open>0.7\<close> lies in the range
  and is normalized to \<^verbatim>\<open>0.09999999999999998\<close>, which is below \<^verbatim>\<open>min\<close>: the
  difference \<^verbatim>\<open>0.7 - 0.1\<close> is rounded, and so much is taken off the input. With
  \<^verbatim>\<open>min = 0\<close>, \<^verbatim>\<open>max = 10\<close>, \<^verbatim>\<open>step = 0\<close>, the input \<^verbatim>\<open>3\<close> is normalized to
  \<^verbatim>\<open>NaN\<close>.
\<close>

theorem number_normalize_out_of_range:
  "normalize example_platform (number_item (binary64 (1 / 10)) (Fin 1) (Fin 1))
       (JNum (binary64 (7 / 10)))
     = Inr (JNum (Fin (900719925474099 / 9007199254740992)))
   \<and> num_lt (binary64 (1 / 10)) (binary64 (7 / 10))
   \<and> num_lt (binary64 (7 / 10)) (Fin 1)
   \<and> num_lt (Fin (900719925474099 / 9007199254740992)) (binary64 (1 / 10))
   \<and> normalize example_platform (number_item (Fin 0) (Fin 10) (Fin 0)) (JNum (Fin 3))
       = Inr (JNum NaN)"
proof -
  have below: "normalize example_platform
          (number_item (Fin (3602879701896397 / 36028797018963968)) (Fin 1) (Fin 1))
          (JNum (Fin (3152519739159347 / 4503599627370496)))
        = Inr (JNum (Fin (900719925474099 / 9007199254740992)))"
    by (simp add: number_normalize_eval binary64_eval)
  have nan: "normalize example_platform (number_item (Fin 0) (Fin 10) (Fin 0)) (JNum (Fin 3))
        = Inr (JNum NaN)"
    by (simp add: number_normalize_eval binary64_eval)
  show ?thesis
    unfolding binary64_tenth binary64_seven_tenths using below nan by simp
qed

text \<open>
  Claim C4 at a Number item without lower bound (\<^verbatim>\<open>min\<close> is \<^verbatim>\<open>-Infinity\<close>, the other
  properties are the defaults of the class): the input \<^verbatim>\<open>5\<close> is normalized to
  \<^verbatim>\<open>NaN\<close>, and \<^verbatim>\<open>NaN\<close> is normalized to \<^verbatim>\<open>-Infinity\<close>, so normalizing twice does
  not give what normalizing once gives.
\<close>

theorem number_normalize_unbounded_below:
  "normalize example_platform (number_item NegInf PosInf (Fin 1)) (JNum (Fin 5)) = Inr (JNum NaN)
   \<and> normalize example_platform (number_item NegInf PosInf (Fin 1)) (JNum NaN)
       = Inr (JNum NegInf)"
  by (simp add: number_item_def example_item_def NumberConfigItem_normalize_def num_gt_def
                NumberConfigItem_initial_def)

text \<open>
  Rounding breaks idempotence also where all bounds are finite or default: with
  \<^verbatim>\<open>min = 0\<close> and \<^verbatim>\<open>step = 0.1\<close>, the input \<^verbatim>\<open>0.55\<close> is normalized to \<^verbatim>\<open>0.5\<close>,
  and \<^verbatim>\<open>0.5\<close> is normalized to \<^verbatim>\<open>0.4\<close>.
\<close>

lemma number_normalize_step_tenth:
  "normalize example_platform (number_item (Fin 0) PosInf (binary64 (1 / 10)))
       (JNum (binary64 (55 / 100)))
     = Inr (JNum (Fin (1 / 2)))
   \<and> normalize example_platform (number_item (Fin 0) PosInf (binary64 (1 / 10)))
       (JNum (Fin (1 / 2)))
     = Inr (JNum (binary64 (4 / 10)))
   \<and> binary64 (4 / 10) \<noteq> Fin (1 / 2)"
proof -
  have first: "normalize example_platform
          (number_item (Fin 0) PosInf (Fin (3602879701896397 / 36028797018963968)))
          (JNum (Fin (2476979795053773 / 4503599627370496)))
        = Inr (JNum (Fin (1 / 2)))"
    by (simp add: number_normalize_eval binary64_eval)
  have second: "normalize example_platform
          (number_item (Fin 0) PosInf (Fin (3602879701896397 / 36028797018963968)))
          (JNum (Fin (1 / 2)))
        = Inr (JNum (Fin (3602879701896397 / 9007199254740992)))"
    by (simp add: number_normalize_eval binary64_eval)
  show ?thesis
    unfolding binary64_tenth binary64_55_hundredths binary64_four_tenths
    using first second by simp
qed

section \<open>Select items\<close>

lemma is_string_strict_eq: "strict_eq v (JStr (to_string P v)) = is_string v"
  by (cases v) auto

lemma is_string_not_null: "is_string (value_of x) \<Longrightarrow> x \<noteq> JUndefined \<and> x \<noteq> JNull"
  by (cases x) auto

lemma some_not_string_False:
  "some_not_string P opts = Inr False \<longleftrightarrow> list_all (\<lambda>x. is_string (value_of x)) opts"
  by (induction opts) (auto simp: is_string_strict_eq dest: is_string_not_null)

lemma some_not_string_error: "some_not_string P opts = Inl e \<Longrightarrow> is_TypeError e"
  by (induction opts) (auto split: if_splits)

lemma SelectConfigItem_check_None:
  "SelectConfigItem_check P it = None \<longleftrightarrow> string_options (select it)"
proof (cases "select it")
  case (JArr opts)
  then show ?thesis
    using some_not_string_False [of P opts]
    by (auto simp: SelectConfigItem_check_def split: sum.splits bool.splits)
qed (auto simp: SelectConfigItem_check_def)

lemma SelectConfigItem_check_error:
  "SelectConfigItem_check P it = Some e \<Longrightarrow> is_TypeError e"
  by (auto simp: SelectConfigItem_check_def split: if_splits jsval.splits sum.splits bool.splits
           dest: some_not_string_error)

text \<open>Every exception of a construction is a \<^verbatim>\<open>TypeError\<close>.\<close>

lemma construct_error:
  "construct P k p refs c = Inl e \<Longrightarrow> is_TypeError e"
  "configItemBuilder P p refs c = Inl e \<Longrightarrow> is_TypeError e"
  "BaseConfigItem P rs sid = Inl e \<Longrightarrow> is_TypeError e"
proof (induction P k p refs c and P p refs c and P rs sid
       rule: construct_configItemBuilder_BaseConfigItem.induct)
  case (1 P k p refs ctx)
  then show ?case
    by (auto simp: Let_def split: sum.splits option.splits if_splits
             dest: SelectConfigItem_check_error)
next
  case (2 P p refs ctx)
  then show ?case
    by (auto split: sum.splits option.splits)
next
  case (6 P key p refs rest self_id)
  then show ?case
    by (auto split: sum.splits)
qed (auto split: sum.splits)

text \<open>
  Claim C7, as amended. Constructing a Select item whose declared \<^verbatim>\<open>select\<close> is absent,
  is not an array, or has an option whose value is not a string fails with a
  \<^verbatim>\<open>TypeError\<close>. Construction succeeds exactly when \<^verbatim>\<open>select\<close> is an array whose
  options all have string values, the empty array included, and the items of \<^verbatim>\<open>ref\<close>
  construct.
\<close>

theorem SelectConfigItem_new_options:
  "(\<not> string_options (d_select p) \<longrightarrow>
      (\<exists>e. SelectConfigItem_new P p refs c = Inl e \<and> is_TypeError e))
   \<and> ((\<exists>b. SelectConfigItem_new P p refs c = Inr b) \<longleftrightarrow>
        string_options (d_select p) \<and> (\<exists>rs. BaseConfigItem P refs (d_id p) = Inr rs))"
proof -
  have sel: "select (ConfigItem_init SelectConfigItem p c) = d_select p"
    by (simp add: ConfigItem_init_def)
  have succ: "(\<exists>b. SelectConfigItem_new P p refs c = Inr b) \<longleftrightarrow>
        string_options (d_select p) \<and> (\<exists>rs. BaseConfigItem P refs (d_id p) = Inr rs)"
    using SelectConfigItem_check_None [of P "ConfigItem_init SelectConfigItem p c"]
    by (auto simp: SelectConfigItem_new_def sel Let_def split: sum.splits option.splits)
  have "\<exists>e. SelectConfigItem_new P p refs c = Inl e \<and> is_TypeError e"
    if "\<not> string_options (d_select p)"
  proof (cases "SelectConfigItem_new P p refs c")
    case (Inl e)
    then show ?thesis using construct_error(1) [of P SelectConfigItem p refs c e]
      by (simp add: SelectConfigItem_new_def)
  next
    case (Inr b)
    then show ?thesis using succ that by blast
  qed
  then show ?thesis using succ by blast
qed

text \<open>
  The theorem at two declarations without \<^verbatim>\<open>ref\<close>: one has an option with the number
  \<^verbatim>\<open>1\<close> as value and fails, the other has the options \<^verbatim>\<open>a\<close> and \<^verbatim>\<open>b\<close> and is
  constructed.
\<close>

theorem SelectConfigItem_new_options_witness:
  "\<not> string_options (JArr [select_option ''a'', JObj [(''value'', JNum (Fin 1))]])
   \<and> (\<exists>e. SelectConfigItem_new example_platform
             (example_props\<lparr>d_select := JArr [select_option ''a'', JObj [(''value'', JNum (Fin 1))]]\<rparr>)
             [] None = Inl e
          \<and> is_TypeError e)
   \<and> string_options (JArr [select_option ''a'', select_option ''b''])
   \<and> (\<exists>b. SelectConfigItem_new example_platform
             (example_props\<lparr>d_select := JArr [select_option ''a'', select_option ''b'']\<rparr>)
             [] None = Inr b)"
  using SelectConfigItem_new_options
          [of "example_props\<lparr>d_select := JArr [select_option ''a'', JObj [(''value'', JNum (Fin 1))]]\<rparr>"
              example_platform "[]" None]
        SelectConfigItem_new_options
          [of "example_props\<lparr>d_select := JArr [select_option ''a'', select_option ''b'']\<rparr>"
              example_platform "[]" None]
  by (simp add: select_option_def)

text \<open>The claim as stated fails at the empty option list: the item is constructed.\<close>

theorem SelectConfigItem_new_options_counterexample:
  "SelectConfigItem_new example_platform (example_props\<lparr>d_select := JArr []\<rparr>) [] None
     = Inr (select_item [], [])"
  by (simp add: SelectConfigItem_new_def SelectConfigItem_check_def ConfigItem_init_def
                example_props_def select_item_def example_item_def)

lemma select_find_strings:
  assumes "list_all (\<lambda>x. is_string (value_of x)) opts"
  shows "\<exists>f. select_find opts v = Inr f \<and> (truthy f \<longleftrightarrow> (\<exists>x\<in>set opts. value_of x = v))"
  using assms
proof (induction opts)
  case Nil
  then show ?case by simp
next
  case (Cons x xs)
  then obtain s where s: "value_of x = JStr s" by (cases "value_of x") auto
  then obtain kvs where x: "x = JObj kvs" by (cases x) auto
  show ?case
  proof (cases "v = JStr s")
    case True
    then show ?thesis using s x by auto
  next
    case False
    then have "\<not> strict_eq (value_of x) v" using s by (cases v) auto
    then show ?thesis using Cons s x False by auto
  qed
qed

text \<open>
  Claim C8, as amended. For every Select item that the constructor accepted and whose
  option list is not empty, and for every value: the normalized value is the value itself
  if and only if some option has it as its value; when no option has it, the normalized
  value is the value of the first option, which is the initial value.
\<close>

theorem SelectConfigItem_normalize_fallback:
  assumes "cls it = SelectConfigItem"
    and "SelectConfigItem_check P it = None"
    and "select it = JArr opts" and "opts \<noteq> []"
  shows "(normalize P it v = Inr v \<longleftrightarrow> (\<exists>x\<in>set opts. value_of x = v))
       \<and> (\<not> (\<exists>x\<in>set opts. value_of x = v) \<longrightarrow>
            normalize P it v = Inr (value_of (hd opts)) \<and> initial it = value_of (hd opts))"
proof -
  have all: "list_all (\<lambda>x. is_string (value_of x)) opts"
    using assms(2,3) by (simp add: SelectConfigItem_check_None)
  obtain x xs where opts: "opts = x # xs" using assms(4) by (cases opts) auto
  then have "is_string (value_of x)" using all by simp
  then obtain kvs where x: "x = JObj kvs" by (cases x) auto
  have ini: "SelectConfigItem_initial it = value_of (hd opts)"
    using assms(3) opts x by (simp add: SelectConfigItem_initial_def)
  have mem: "\<exists>y\<in>set opts. value_of y = value_of (hd opts)" using opts by auto
  obtain f where f: "select_find opts v = Inr f" "truthy f \<longleftrightarrow> (\<exists>x\<in>set opts. value_of x = v)"
    using select_find_strings [OF all] by blast
  have norm: "normalize P it v = (if truthy f then Inr v else Inr (value_of (hd opts)))"
    using assms(1,3) f(1) ini by (simp add: SelectConfigItem_normalize_def)
  show ?thesis
  proof (cases "truthy f")
    case True
    then show ?thesis using norm f(2) by simp
  next
    case False
    then have "v \<noteq> value_of (hd opts)" using f(2) mem by auto
    then show ?thesis using norm f(2) False ini assms(1) by auto
  qed
qed

text \<open>
  The theorem at the options \<^verbatim>\<open>a\<close> and \<^verbatim>\<open>b\<close>: the value \<^verbatim>\<open>b\<close> is kept, the number
  \<^verbatim>\<open>3\<close> falls back to \<^verbatim>\<open>a\<close>.
\<close>

theorem SelectConfigItem_normalize_fallback_witness:
  "normalize example_platform (select_item [select_option ''a'', select_option ''b'']) (JStr ''b'')
     = Inr (JStr ''b'')
   \<and> normalize example_platform (select_item [select_option ''a'', select_option ''b''])
        (JNum (Fin 3))
     = Inr (JStr ''a'')"
  using SelectConfigItem_normalize_fallback
          [of "select_item [select_option ''a'', select_option ''b'']" example_platform
              "[select_option ''a'', select_option ''b'']" "JStr ''b''"]
        SelectConfigItem_normalize_fallback
          [of "select_item [select_option ''a'', select_option ''b'']" example_platform
              "[select_option ''a'', select_option ''b'']" "JNum (Fin 3)"]
  by (simp add: SelectConfigItem_check_def select_option_def select_item_def example_item_def)

text \<open>
  The claim as stated fails at the empty option list, which the constructor accepts:
  \<^verbatim>\<open>null\<close> is normalized to itself although no option has it as value.
\<close>

theorem SelectConfigItem_normalize_fallback_counterexample:
  "SelectConfigItem_check example_platform (select_item []) = None
   \<and> normalize example_platform (select_item []) JNull = Inr JNull
   \<and> \<not> (\<exists>x\<in>set []. value_of x = JNull)"
  by (simp add: SelectConfigItem_check_def SelectConfigItem_normalize_def
                SelectConfigItem_initial_def select_item_def example_item_def)

section \<open>Reading the setting\<close>

text \<open>
  Claim C1 on two stored values. A Boolean item whose store entry holds \<^verbatim>\<open>true\<close>:
  normalization changes nothing, and \<^verbatim>\<open>getConfig\<close> writes \<^verbatim>\<open>true\<close> to the store all
  the same. A Select item with the one option \<^verbatim>\<open>true\<close> (a string) whose store entry
  holds the boolean \<^verbatim>\<open>true\<close>: normalization changes the value to the string, and
  \<^verbatim>\<open>getConfig\<close> writes nothing, so the store keeps the boolean.
\<close>

theorem getConfig_write_back:
  "getConfig example_platform (example_item\<lparr>cls := BooleanConfigItem\<rparr>) (example_store (JBool True))
     = (Inr (JBool True),
        example_item\<lparr>cls := BooleanConfigItem, config := Some ''x'', configInitialized := True\<rparr>,
        \<lparr> contents = [''x'' \<mapsto> JBool True], writes = [(''x'', JBool True)],
          listeners = [''x''] \<rparr>)
   \<and> normalize example_platform (example_item\<lparr>cls := BooleanConfigItem\<rparr>) (JBool True)
       = Inr (JBool True)
   \<and> getConfig example_platform (select_item [select_option ''true'']) (example_store (JBool True))
     = (Inr (JStr ''true''),
        (select_item [select_option ''true''])\<lparr>config := Some ''x'', configInitialized := True\<rparr>,
        \<lparr> contents = [''x'' \<mapsto> JBool True], writes = [], listeners = [''x''] \<rparr>)"
  by (simp add: getConfig_def initConfig_def example_item_def example_store_def store_get_def
                store_set_def store_addListener_def BooleanConfigItem_normalize_def Let_def
                SelectConfigItem_normalize_def SelectConfigItem_initial_def select_item_def
                select_option_def)

section \<open>Idempotence and round trip\<close>

lemma SelectConfigItem_normalize_idempotent:
  assumes "SelectConfigItem_check P it = None" and "SelectConfigItem_normalize it v = Inr n"
  shows "SelectConfigItem_normalize it n = Inr n"
proof -
  obtain opts where opts: "select it = JArr opts" "list_all (\<lambda>x. is_string (value_of x)) opts"
    using assms(1) unfolding SelectConfigItem_check_None by (cases "select it") auto
  obtain f where f: "select_find opts v = Inr f" "truthy f \<longleftrightarrow> (\<exists>x\<in>set opts. value_of x = v)"
    using select_find_strings [OF opts(2)] by blast
  show ?thesis
  proof (cases "truthy f")
    case True
    then have "n = v" using assms(2) opts(1) f(1) by (simp add: SelectConfigItem_normalize_def)
    then show ?thesis using assms(2) by simp
  next
    case False
    then have n: "n = SelectConfigItem_initial it"
      using assms(2) opts(1) f(1) by (simp add: SelectConfigItem_normalize_def)
    show ?thesis
    proof (cases opts)
      case Nil
      then show ?thesis using n opts(1)
        by (simp add: SelectConfigItem_normalize_def SelectConfigItem_initial_def)
    next
      case (Cons x xs)
      then have "is_string (value_of x)" using opts(2) by simp
      then obtain kvs where x: "x = JObj kvs" by (cases x) auto
      have ini: "SelectConfigItem_initial it = value_of x"
        using opts(1) Cons x by (simp add: SelectConfigItem_initial_def)
      obtain g where g: "select_find opts n = Inr g" "truthy g \<longleftrightarrow> (\<exists>x\<in>set opts. value_of x = n)"
        using select_find_strings [OF opts(2)] by blast
      have "truthy g" using g(2) n ini Cons by auto
      then show ?thesis using g(1) opts(1) by (simp add: SelectConfigItem_normalize_def)
    qed
  qed
qed

lemma BooleanConfigItem_normalize_idempotent:
  "BooleanConfigItem_normalize it (BooleanConfigItem_normalize it v) = BooleanConfigItem_normalize it v"
  by (simp add: BooleanConfigItem_normalize_def BooleanConfigItem_initial_def)

text \<open>
  Idempotent normalization, where it holds: normalizing a normalized value changes
  nothing for every item of the plain and the Boolean classes and for every Select item
  the constructor accepted.
\<close>

theorem normalize_idempotent:
  assumes "normalize P it v = Inr n"
    and "cls it = SelectConfigItem \<longrightarrow> SelectConfigItem_check P it = None"
    and "\<not> is_number_item it"
  shows "normalize P it n = Inr n"
proof (cases "cls it")
  case SelectConfigItem
  then show ?thesis using assms SelectConfigItem_normalize_idempotent [of P it v n] by simp
qed (use assms BooleanConfigItem_normalize_idempotent [of it v] in
      \<open>auto simp: is_number_item_def\<close>)

text \<open>The theorem at the options \<^verbatim>\<open>a\<close> and \<^verbatim>\<open>b\<close> and the number \<^verbatim>\<open>3\<close>.\<close>

theorem normalize_idempotent_witness:
  "normalize example_platform (select_item [select_option ''a'', select_option ''b''])
       (JNum (Fin 3))
     = Inr (JStr ''a'')
   \<and> normalize example_platform (select_item [select_option ''a'', select_option ''b''])
       (JStr ''a'')
     = Inr (JStr ''a'')"
proof -
  let ?it = "select_item [select_option ''a'', select_option ''b'']"
  have n: "normalize example_platform ?it (JNum (Fin 3)) = Inr (JStr ''a'')"
    by (simp add: select_item_def select_option_def example_item_def
                  SelectConfigItem_normalize_def SelectConfigItem_initial_def)
  have c: "cls ?it = SelectConfigItem \<longrightarrow> SelectConfigItem_check example_platform ?it = None"
    by (simp add: select_item_def select_option_def example_item_def SelectConfigItem_check_def)
  have k: "\<not> is_number_item ?it"
    by (simp add: is_number_item_def select_item_def example_item_def)
  show ?thesis using n normalize_idempotent [OF n c k] by simp
qed

text \<open>
  Round trip. After \<^verbatim>\<open>setConfig(v)\<close> has returned a value, \<^verbatim>\<open>getConfig()\<close> returns
  that value, provided normalization leaves it as it is.
\<close>

theorem setConfig_getConfig:
  assumes "setConfig P it v st = (Inr n, it1, st1)" and "normalize P it1 n = Inr n"
  shows "fst (getConfig P it1 st1) = Inr n"
proof -
  obtain it0 st0 where i: "initConfig it st = Inr (it0, st0)"
    using assms(1) by (auto simp: setConfig_def split: sum.splits)
  then obtain key where key: "config it0 = Some key" "it1 = it0" "st1 = store_set st0 key n"
    using assms(1) by (auto simp: setConfig_def split: sum.splits option.splits)
  have init: "configInitialized it0"
    using i by (auto simp: initConfig_def split: if_splits option.splits)
  have "store_get st1 key = n" using key(3) by (simp add: store_get_def store_set_def)
  then show ?thesis
    using init key(1,2) assms(2)
    by (auto simp: getConfig_def initConfig_def Let_def)
qed

text \<open>
  The theorem at a Boolean item with an empty store entry: the string \<^verbatim>\<open>yes\<close> is
  written as \<^verbatim>\<open>true\<close> and read as \<^verbatim>\<open>true\<close>.
\<close>

theorem setConfig_getConfig_witness:
  "fst (setConfig example_platform (example_item\<lparr>cls := BooleanConfigItem\<rparr>) (JStr ''yes'')
          (example_store JUndefined)) = Inr (JBool True)
   \<and> fst (getConfig example_platform
            (fst (snd (setConfig example_platform (example_item\<lparr>cls := BooleanConfigItem\<rparr>)
                        (JStr ''yes'') (example_store JUndefined))))
            (snd (snd (setConfig example_platform (example_item\<lparr>cls := BooleanConfigItem\<rparr>)
                        (JStr ''yes'') (example_store JUndefined)))))
       = Inr (JBool True)"
proof -
  let ?s = "setConfig example_platform (example_item\<lparr>cls := BooleanConfigItem\<rparr>) (JStr ''yes'')
              (example_store JUndefined)"
  have s: "fst ?s = Inr (JBool True)"
    by (simp add: setConfig_def initConfig_def example_item_def example_store_def
                  BooleanConfigItem_normalize_def)
  then have h: "?s = (Inr (JBool True), fst (snd ?s), snd (snd ?s))"
    by (metis prod.collapse)
  have c: "cls (fst (snd ?s)) = BooleanConfigItem"
    by (simp add: setConfig_def initConfig_def example_item_def example_store_def
                  BooleanConfigItem_normalize_def)
  have "normalize example_platform (fst (snd ?s)) (JBool True) = Inr (JBool True)"
    using c by (simp add: BooleanConfigItem_normalize_def)
  then show ?thesis using s setConfig_getConfig [OF h] by blast
qed

section \<open>Template tokens\<close>

text \<open>
  Claim C9. The template \<^verbatim>\<open>{{a}}||[[r]]text&amp;\<close> gives, in recursive mode, the
  tokens child \<^verbatim>\<open>a\<close>, splitter \<^verbatim>\<open>||\<close>, rule \<^verbatim>\<open>r\<close>, text \<^verbatim>\<open>text\<close>, text
  \<^verbatim>\<open>&amp;\<close>, and in text mode the tokens child \<^verbatim>\<open>a\<close>, text \<^verbatim>\<open>text\<close>, text
  \<^verbatim>\<open>&amp;\<close>, whatever types were accepted before.
\<close>

theorem itemRender_tokens_example:
  "itemRender_tokens ''{{a}}||[[r]]text&amp;'' (Some Recursive) acceptTypes =
     [\<lparr>token_type = ''child'', token_value = ''a''\<rparr>,
      \<lparr>token_type = ''splitter'', token_value = ''||''\<rparr>,
      \<lparr>token_type = ''rule'', token_value = ''r''\<rparr>,
      \<lparr>token_type = ''text'', token_value = ''text''\<rparr>,
      \<lparr>token_type = ''text'', token_value = ''&amp;''\<rparr>]
   \<and> itemRender_tokens ''{{a}}||[[r]]text&amp;'' (Some TextOnly) acceptTypes =
     [\<lparr>token_type = ''child'', token_value = ''a''\<rparr>,
      \<lparr>token_type = ''text'', token_value = ''text''\<rparr>,
      \<lparr>token_type = ''text'', token_value = ''&amp;''\<rparr>]"
  by code_simp

section \<open>The rule tree\<close>

lemma RuleItem_new_failure:
  "RuleItem_new P k p refs reg = (Inl e, reg1) \<Longrightarrow> reg1 = reg"
  by (auto simp: RuleItem_new_def Let_def split: sum.splits option.splits prod.splits)

lemma Rule_new_failure:
  "Rule_new P k p refs reg = (Inl e, reg1) \<Longrightarrow> reg1 = reg"
  by (auto simp: Rule_new_def split: if_splits dest: RuleItem_new_failure)

text \<open>
  Claim C2. Declaring a group whose parent is not a tab, or a rule or text whose parent
  is not a group, gives the \<^verbatim>\<open>TypeError\<close> of the constructor, and the registry (the
  children of every object and the list of tabs) is what it was before the call. The
  same holds for every exception of these declarations: a declaration that fails
  registers nothing.
\<close>

theorem structural_error_no_registration:
  "(\<not> instanceof reg (parent p) Tab \<longrightarrow>
      groupBuilder P p refs reg = (Inl (TypeError ''Group must in some Tab''), reg))
   \<and> (\<not> instanceof reg (parent p) Group \<longrightarrow>
      ruleBuilder P p refs reg = (Inl (TypeError ''Rule must in some Group''), reg)
      \<and> textBuilder P p refs reg = (Inl (TypeError ''Rule must in some Group''), reg))
   \<and> (\<forall>e reg1. groupBuilder P p refs reg = (Inl e, reg1) \<longrightarrow> reg1 = reg)
   \<and> (\<forall>e reg1. ruleBuilder P p refs reg = (Inl e, reg1) \<longrightarrow> reg1 = reg)
   \<and> (\<forall>e reg1. textBuilder P p refs reg = (Inl e, reg1) \<longrightarrow> reg1 = reg)"
proof -
  have checks: "(\<not> instanceof reg (parent p) Tab \<longrightarrow>
      groupBuilder P p refs reg = (Inl (TypeError ''Group must in some Tab''), reg))
   \<and> (\<not> instanceof reg (parent p) Group \<longrightarrow>
      ruleBuilder P p refs reg = (Inl (TypeError ''Rule must in some Group''), reg)
      \<and> textBuilder P p refs reg = (Inl (TypeError ''Rule must in some Group''), reg))"
    by (simp add: groupBuilder_def ruleBuilder_def textBuilder_def Rule_new_def)
  have group: "reg1 = reg" if "groupBuilder P p refs reg = (Inl e, reg1)" for e reg1
    using that
    by (auto simp: groupBuilder_def split: if_splits prod.splits sum.splits
             dest: RuleItem_new_failure)
  have rule: "reg1 = reg" if "ruleBuilder P p refs reg = (Inl e, reg1)" for e reg1
    using that by (auto simp: ruleBuilder_def dest: Rule_new_failure)
  have txt_item: "reg1 = reg" if "textBuilder P p refs reg = (Inl e, reg1)" for e reg1
    using that
    by (auto simp: textBuilder_def split: prod.splits sum.splits dest: Rule_new_failure)
  show ?thesis using checks group rule txt_item by blast
qed

text \<open>
  The theorem in the registry with one tab: a group without parent, and a rule whose
  parent is the tab.
\<close>

theorem structural_error_no_registration_witness:
  "\<not> instanceof example_registry (parent (example_props\<lparr>parent := None\<rparr>)) Tab
   \<and> groupBuilder example_platform (example_props\<lparr>parent := None\<rparr>) [] example_registry
       = (Inl (TypeError ''Group must in some Tab''), example_registry)
   \<and> \<not> instanceof example_registry (parent (example_props\<lparr>parent := Some 0\<rparr>)) Group
   \<and> ruleBuilder example_platform (example_props\<lparr>parent := Some 0\<rparr>) [] example_registry
       = (Inl (TypeError ''Rule must in some Group''), example_registry)"
  using structural_error_no_registration
          [of example_registry "example_props\<lparr>parent := None\<rparr>" example_platform "[]"]
        structural_error_no_registration
          [of example_registry "example_props\<lparr>parent := Some 0\<rparr>" example_platform "[]"]
  by (simp add: instanceof_def lookup_def example_registry_def example_props_def example_item_def)

text \<open>For comparison, a group whose parent is the tab is registered as its child.\<close>

lemma groupBuilder_registers:
  "groupBuilder example_platform (example_props\<lparr>parent := Some 0\<rparr>) [] example_registry
     = (Inr 1,
        \<lparr> objects = [\<lparr> instance_of = Some (example_item\<lparr>cls := Tab, always := True\<rparr>),
                       ref_items = [], children = Some [1] \<rparr>,
                     \<lparr> instance_of = Some (example_item\<lparr>cls := Group, always := True\<rparr>),
                       ref_items = [], children = Some [] \<rparr>],
          tabs = [0] \<rparr>)"
  by (simp add: groupBuilder_def RuleItem_new_def instanceof_def lookup_def example_registry_def
                example_props_def example_item_def ConfigItem_init_def set_children_def Let_def)

subsection \<open>Query\<close>

lemma is_Rule_not_container: "is_Rule n \<Longrightarrow> \<not> is_Tab_or_Group n"
  by (auto simp: is_Rule_def is_Tab_or_Group_def)

text \<open>The walk adds the rules among the visited nodes, in the order of the visit.\<close>

lemma query_items_foldl:
  "query_items items result =
     foldl (\<lambda>r n. set_add n r) result (filter is_Rule (concat (map visited items)))"
proof (induction items result rule: query_items.induct)
  case (1 result)
  then show ?case by simp
next
  case (2 i k a cs items result)
  show ?case
  proof (cases "is_Tab_or_Group (Node i k a cs)")
    case True
    then have "\<not> is_Rule (Node i k a cs)" using is_Rule_not_container by blast
    then show ?thesis using True 2 by (simp add: Let_def)
  next
    case False
    then show ?thesis using 2 by (simp add: Let_def)
  qed
qed

lemma foldl_set_add:
  "foldl (\<lambda>r n. set_add n r) acc xs =
     acc @ first_occurrences (filter (\<lambda>m. oid m \<notin> oid ` set acc) xs)"
proof (induction xs arbitrary: acc)
  case Nil
  then show ?case by simp
next
  case (Cons x xs)
  show ?case
  proof (cases "oid x \<in> oid ` set acc")
    case True
    then show ?thesis using Cons [of acc] by (simp add: set_add_def)
  next
    case False
    have "filter (\<lambda>m. oid m \<notin> oid ` set (acc @ [x])) xs
            = filter (\<lambda>m. oid m \<noteq> oid x) (filter (\<lambda>m. oid m \<notin> oid ` set acc) xs)"
      by (induction xs) auto
    then show ?thesis using False Cons [of "acc @ [x]"] by (simp add: set_add_def)
  qed
qed

lemma first_occurrences_oids: "oid ` set (first_occurrences xs) = oid ` set xs"
  by (induction xs rule: first_occurrences.induct) auto

lemma first_occurrences_subset: "set (first_occurrences xs) \<subseteq> set xs"
  by (induction xs rule: first_occurrences.induct) auto

lemma first_occurrences_distinct: "distinct (map oid (first_occurrences xs))"
proof (induction xs rule: first_occurrences.induct)
  case 1
  then show ?case by simp
next
  case (2 n ns)
  have "oid n \<notin> oid ` set (first_occurrences (filter (\<lambda>m. oid m \<noteq> oid n) ns))"
    unfolding first_occurrences_oids by auto
  then show ?case using 2 by simp
qed

text \<open>
  Claim C6. For every forest given as \<^verbatim>\<open>base\<close> (all tabs when none is given),
  \<^verbatim>\<open>query\<close> returns the rules among the nodes of the depth-first walk, each at the
  place of its first visit: no identity occurs twice, every element is a rule or text and
  no tab or group, and the identities returned are those of the rules the walk visits.
\<close>

theorem query_depth_first:
  "query all_tabs base = depth_first_rules (case base of None \<Rightarrow> all_tabs | Some b \<Rightarrow> b)
   \<and> distinct (map oid (query all_tabs base))
   \<and> (\<forall>n\<in>set (query all_tabs base). is_Rule n \<and> \<not> is_Tab_or_Group n)
   \<and> oid ` set (query all_tabs base)
       = oid ` {n \<in> set (concat (map visited (case base of None \<Rightarrow> all_tabs | Some b \<Rightarrow> b))).
                is_Rule n}"
proof -
  let ?roots = "case base of None \<Rightarrow> all_tabs | Some b \<Rightarrow> b"
  have eq: "query all_tabs base = depth_first_rules ?roots"
    by (simp add: query_def depth_first_rules_def query_items_foldl foldl_set_add)
  have sub: "set (depth_first_rules ?roots) \<subseteq> {n \<in> set (concat (map visited ?roots)). is_Rule n}"
    using first_occurrences_subset [of "filter is_Rule (concat (map visited ?roots))"]
    by (auto simp: depth_first_rules_def)
  have oids: "oid ` set (depth_first_rules ?roots)
                = oid ` {n \<in> set (concat (map visited ?roots)). is_Rule n}"
    using first_occurrences_oids [of "filter is_Rule (concat (map visited ?roots))"]
    by (simp add: depth_first_rules_def)
  show ?thesis
    unfolding eq using sub oids is_Rule_not_container
    by (auto simp: depth_first_rules_def first_occurrences_distinct)
qed

text \<open>
  The theorem on the two tabs that share a group: the rules of the group are reported
  once, before the text of the second tab, also when a tab and a rule are given twice.
\<close>

theorem query_depth_first_witness:
  "query example_forest None = [leaf 12 Rule, leaf 13 Rule, leaf 14 Text]
   \<and> query [] (Some (example_forest @ [leaf 13 Rule] @ example_forest))
       = [leaf 12 Rule, leaf 13 Rule, leaf 14 Text]
   \<and> distinct (map oid (query example_forest None))"
proof -
  have "query example_forest None = [leaf 12 Rule, leaf 13 Rule, leaf 14 Text]"
    by code_simp
  moreover have "query [] (Some (example_forest @ [leaf 13 Rule] @ example_forest))
       = [leaf 12 Rule, leaf 13 Rule, leaf 14 Text]"
    by code_simp
  ultimately show ?thesis
    using query_depth_first [of example_forest None] by blast
qed

subsection \<open>Executing the rules\<close>

lemma forEach_execute_append:
  "forEach_execute P (xs @ ys) w =
     (case forEach_execute P xs w of
        (Some e, w1) \<Rightarrow> (Some e, w1)
      | (None, w1) \<Rightarrow> forEach_execute P ys w1)"
  by (induction xs arbitrary: w) (auto split: prod.splits option.splits)











lemma isEnabled_lacks_id:
  assumes "lacks_id it"
  shows "isEnabled P it st = (Inl (Error ''id is required to init config''), it, st)"
  using assms
  by (auto simp: lacks_id_def isEnabled_def getConfig_def initConfig_def id_falsy_def
           split: option.splits)

text \<open>
  Claim C10. The enabled state is determined before the \<^verbatim>\<open>try\<close> block, so an exception
  of that step leaves \<^verbatim>\<open>execute\<close> and ends the loop over the rules, whatever rules come
  after it. In particular a rule that is not always enabled and has neither a store
  handle nor an \<^verbatim>\<open>id\<close> makes \<^verbatim>\<open>execute\<close> throw the missing-\<^verbatim>\<open>id\<close> error with the
  state untouched, and the loop ends with that error in the state the rules before it
  left: none of the rules after it is executed.
\<close>

theorem execute_missing_id_aborts:
  "(isEnabled P (settings w (oid n)) (settings_store w) = (Inl e, it1, st1) \<longrightarrow>
      execute P n w = (Some e, w\<lparr>settings := (settings w)(oid n := it1), settings_store := st1\<rparr>)
      \<and> forEach_execute P (n # rest) w
          = (Some e, w\<lparr>settings := (settings w)(oid n := it1), settings_store := st1\<rparr>))
   \<and> (lacks_id (settings w (oid n)) \<longrightarrow>
      execute P n w = (Some (Error ''id is required to init config''), w)
      \<and> forEach_execute P (n # rest) w = (Some (Error ''id is required to init config''), w)
      \<and> (forEach_execute P before w0 = (None, w) \<longrightarrow>
            forEach_execute P (before @ n # rest) w0
              = (Some (Error ''id is required to init config''), w)))"
proof -
  have general: "execute P n w
          = (Some e, w\<lparr>settings := (settings w)(oid n := it1), settings_store := st1\<rparr>)"
    if "isEnabled P (settings w (oid n)) (settings_store w) = (Inl e, it1, st1)"
    using that by (simp add: execute_def)
  have missing: "execute P n w = (Some (Error ''id is required to init config''), w)"
    if "lacks_id (settings w (oid n))"
    using isEnabled_lacks_id [OF that] by (simp add: execute_def)
  show ?thesis using general missing by (simp add: forEach_execute_append)
qed

text \<open>
  The theorem on rule \<open>3\<close>, which has no \<^verbatim>\<open>id\<close>, followed by rule \<open>2\<close>: nothing of
  rule \<open>2\<close> has happened when the loop ends.
\<close>

theorem execute_missing_id_aborts_witness:
  "lacks_id (settings example_world (oid rule_C))
   \<and> forEach_execute example_platform [rule_C, rule_B] example_world
       = (Some (Error ''id is required to init config''), example_world)
   \<and> style (snd (forEach_execute example_platform [rule_C, rule_B] example_world)) = []
   \<and> page (snd (forEach_execute example_platform [rule_C, rule_B] example_world)) = []"
  using execute_missing_id_aborts
          [of example_platform example_world rule_C _ _ _ "[rule_B]" "[]" example_world]
  by (simp add: lacks_id_def id_falsy_def example_world_def rule_C_def example_item_def)

end
